theory Spec2Isabelle
  imports Complex_Main "HOL-Library.Sublist" "HOL-Library.AList"
begin

section \<open>Python values\<close>

text \<open>
  A Python \<open>str\<close> is modelled by the list of bytes of its UTF-8 encoding. The program
  only concatenates strings, compares them and tests \<open>a in b\<close>; encoding commutes with
  concatenation, is injective, and (UTF-8 being self-synchronising) a string occurs in
  another one exactly when its encoding occurs in the other's encoding. The kana of the
  source are therefore written as their three bytes.
\<close>

abbreviation kana_i :: string where "kana_i \<equiv> [CHR 0xE3, CHR 0x81, CHR 0x84]"
abbreviation kana_na :: string where "kana_na \<equiv> [CHR 0xE3, CHR 0x81, CHR 0xAA]"
abbreviation kana_no :: string where "kana_no \<equiv> [CHR 0xE3, CHR 0x81, CHR 0xAE]"
abbreviation kana_ha :: string where "kana_ha \<equiv> [CHR 0xE3, CHR 0x81, CHR 0xAF]"
abbreviation kana_ga :: string where "kana_ga \<equiv> [CHR 0xE3, CHR 0x81, CHR 0x8C]"
abbreviation kana_wo :: string where "kana_wo \<equiv> [CHR 0xE3, CHR 0x82, CHR 0x92]"
abbreviation kana_ni :: string where "kana_ni \<equiv> [CHR 0xE3, CHR 0x81, CHR 0xAB]"
abbreviation kana_de :: string where "kana_de \<equiv> [CHR 0xE3, CHR 0x81, CHR 0xA7]"
abbreviation kana_to :: string where "kana_to \<equiv> [CHR 0xE3, CHR 0x81, CHR 0xA8]"
abbreviation kana_mo :: string where "kana_mo \<equiv> [CHR 0xE3, CHR 0x82, CHR 0x82]"
abbreviation kana_he :: string where "kana_he \<equiv> [CHR 0xE3, CHR 0x81, CHR 0xB8]"
abbreviation kana_ka :: string where "kana_ka \<equiv> [CHR 0xE3, CHR 0x81, CHR 0x8B]"
abbreviation kana_ra :: string where "kana_ra \<equiv> [CHR 0xE3, CHR 0x82, CHR 0x89]"
abbreviation kana_ma :: string where "kana_ma \<equiv> [CHR 0xE3, CHR 0x81, CHR 0xBE]"
abbreviation kana_yo :: string where "kana_yo \<equiv> [CHR 0xE3, CHR 0x82, CHR 0x88]"
abbreviation kana_ri :: string where "kana_ri \<equiv> [CHR 0xE3, CHR 0x82, CHR 0x8A]"
abbreviation kana_da :: string where "kana_da \<equiv> [CHR 0xE3, CHR 0x81, CHR 0xA0]"
abbreviation kana_ke :: string where "kana_ke \<equiv> [CHR 0xE3, CHR 0x81, CHR 0x91]"
abbreviation kana_su :: string where "kana_su \<equiv> [CHR 0xE3, CHR 0x81, CHR 0x99]"
abbreviation kana_shi :: string where "kana_shi \<equiv> [CHR 0xE3, CHR 0x81, CHR 0x97]"
abbreviation kana_ta :: string where "kana_ta \<equiv> [CHR 0xE3, CHR 0x81, CHR 0x9F]"
abbreviation kana_se :: string where "kana_se \<equiv> [CHR 0xE3, CHR 0x81, CHR 0x9B]"
abbreviation kana_n :: string where "kana_n \<equiv> [CHR 0xE3, CHR 0x82, CHR 0x93]"
abbreviation kana_te :: string where "kana_te \<equiv> [CHR 0xE3, CHR 0x81, CHR 0xA6]"

text \<open>The exceptions the modelled code can raise.\<close>

datatype error =
  IndexError | KeyError | TypeError | AttributeError | ValueError | FileNotFoundError
  | RequestError

text \<open>
  The values a JSON document holds (what \<open>json.load\<close> returns); floats are left out.
  \<open>truthy\<close> is Python's truth test on them.
\<close>

datatype json =
  JNull | JBool bool | JInt int | JStr string | JList "json list" | JObj "(string \<times> json) list"

fun truthy :: "json \<Rightarrow> bool" where
  "truthy JNull = False"
| "truthy (JBool b) = b"
| "truthy (JInt n) = (n \<noteq> 0)"
| "truthy (JStr s) = (s \<noteq> [])"
| "truthy (JList xs) = (xs \<noteq> [])"
| "truthy (JObj kvs) = (kvs \<noteq> [])"

text \<open>\<open>d.get(k)\<close>: the value under \<open>k\<close>, or \<open>None\<close>.\<close>

definition dict_get :: "(string \<rightharpoonup> json) \<Rightarrow> string \<Rightarrow> json" where
  "dict_get d k = (case d k of None \<Rightarrow> JNull | Some v \<Rightarrow> v)"

text \<open>\<open>sub in s\<close> on strings: \<open>sub\<close> occurs in \<open>s\<close> as a contiguous run.\<close>

definition str_in :: "string \<Rightarrow> string \<Rightarrow> bool" where
  "str_in sub s = sublist sub s"

section \<open>The domain model (wanikani/models.py)\<close>

record Reading =
  reading :: string
  primary_r :: bool
  accepted_answer_r :: bool
  type_r :: string

record Meaning =
  meaning :: string
  primary_m :: bool
  accepted_answer_m :: bool

text \<open>
  \<open>user_specific_data\<close> is \<open>Optional[dict]\<close>: \<open>None\<close> or a dictionary. Two items are
  equal (the dataclass's \<open>==\<close>) when all their fields are.
\<close>

record WaniKaniItem =
  item_id :: int
  object_kind :: string
  level :: int
  characters :: string
  meanings :: "Meaning list"
  readings :: "Reading list"
  parts_of_speech :: "string list"
  component_subject_ids :: "int list"
  srs_stage :: "int option"
  user_specific_data :: "(string \<rightharpoonup> json) option"

record UserKnowledge =
  vocabulary :: "WaniKaniItem list"
  kanji :: "WaniKaniItem list"
  level_k :: int

definition primary_reading :: "WaniKaniItem \<Rightarrow> string option" where
  "primary_reading w =
     (case filter primary_r (readings w) of [] \<Rightarrow> None | r # _ \<Rightarrow> Some (reading r))"

definition primary_meaning :: "WaniKaniItem \<Rightarrow> string option" where
  "primary_meaning w =
     (case filter primary_m (meanings w) of [] \<Rightarrow> None | m # _ \<Rightarrow> Some (meaning m))"

section \<open>The sentence assembler (wanikani/sentence\_builder.py)\<close>

record SentenceBuilder =
  knowledge :: UserKnowledge
  grammar_level :: string
  started_vocab :: "int set"
  openai_api_key :: "string option"

subsection \<open>Started vocabulary\<close>

text \<open>
  \<open>_initialize_started_vocab\<close>: the loop over the vocabulary, with the set built so far.
  \<open>word.user_specific_data.get\<close> raises AttributeError on \<open>None\<close>.
\<close>

fun initialize_started_vocab :: "WaniKaniItem list \<Rightarrow> int set \<Rightarrow> error + int set" where
  "initialize_started_vocab [] acc = Inr acc"
| "initialize_started_vocab (word # rest) acc =
     (case user_specific_data word of
        None \<Rightarrow> Inl AttributeError
      | Some d \<Rightarrow>
          initialize_started_vocab rest
            (if truthy (dict_get d ''started_at'') then insert (item_id word) acc else acc))"

text \<open>
  \<open>a or b\<close> on optional strings: \<open>a\<close> when it is truthy (a non-empty string), else
  \<open>b\<close>.
\<close>

definition str_truthy :: "string option \<Rightarrow> bool" where
  "str_truthy a = (case a of None \<Rightarrow> False | Some s \<Rightarrow> s \<noteq> [])"

definition py_or :: "string option \<Rightarrow> string option \<Rightarrow> string option" where
  "py_or a b = (if str_truthy a then a else b)"

text \<open>
  The constructor. \<open>env_key\<close> is what \<open>os.getenv("OPENAI_API_KEY")\<close> returns. (The
  constructor also stores a truthy key in the \<open>openai\<close> module; nothing modelled here
  reads it.)
\<close>

definition init_SentenceBuilder ::
  "UserKnowledge \<Rightarrow> string \<Rightarrow> string option \<Rightarrow> string option \<Rightarrow> error + SentenceBuilder" where
  "init_SentenceBuilder k lvl api_key env_key =
     (case initialize_started_vocab (vocabulary k) {} of
        Inl e \<Rightarrow> Inl e
      | Inr s \<Rightarrow>
          Inr \<lparr>knowledge = k, grammar_level = lvl, started_vocab = s,
               openai_api_key = py_or api_key env_key\<rparr>)"

subsection \<open>Parts of speech\<close>

definition normalize_pos :: "string \<Rightarrow> string" where
  "normalize_pos pos =
     (if list_ex (\<lambda>verb_type. str_in verb_type pos) [''ichidan verb'', ''godan verb'', ''verb'']
      then ''verb''
      else if list_ex (\<lambda>adj_type. str_in adj_type pos)
                [kana_i @ '' adjective'', kana_na @ '' adjective'', kana_no @ '' adjective'']
      then ''adjective''
      else pos)"

text \<open>
  The dictionary \<open>pos_dict\<close> keeps its keys in insertion order (the prompt lists them in
  that order), so it is an association list.
\<close>

definition pos_dict_init :: "(string \<times> WaniKaniItem list) list" where
  "pos_dict_init =
     [(''verb'', []), (''noun'', []), (''adjective'', []), (''adverb'', []), (''expression'', [])]"

text \<open>
  One turn of the inner loop: \<open>if normalized_pos in pos_dict:
  pos_dict[normalized_pos].append(word)\<close>.
\<close>

definition bucket_word ::
  "WaniKaniItem \<Rightarrow> string \<Rightarrow> (string \<times> WaniKaniItem list) list \<Rightarrow> (string \<times> WaniKaniItem list) list" where
  "bucket_word word pos pos_dict =
     (let normalized_pos = normalize_pos pos in
      case map_of pos_dict normalized_pos of
        None \<Rightarrow> pos_dict
      | Some ws \<Rightarrow> AList.update normalized_pos (ws @ [word]) pos_dict)"

definition get_available_words_by_pos ::
  "SentenceBuilder \<Rightarrow> (string \<times> WaniKaniItem list) list" where
  "get_available_words_by_pos self =
     fold (\<lambda>word pos_dict.
             if item_id word \<notin> started_vocab self then pos_dict
             else fold (bucket_word word) (parts_of_speech word) pos_dict)
          (vocabulary (knowledge self)) pos_dict_init"

subsection \<open>Grammar elements\<close>

text \<open>
  Python dictionaries whose order of keys the program reads (it lists them in the prompt)
  are association lists. \<open>d[k]\<close> raises KeyError on a missing key; \<open>d.update(items)\<close>
  stores the items in their order, a key already there keeping its place.
\<close>

definition getitem :: "('k \<times> 'v) list \<Rightarrow> 'k \<Rightarrow> error + 'v" where
  "getitem d k = (case map_of d k of None \<Rightarrow> Inl KeyError | Some v \<Rightarrow> Inr v)"

definition dict_update :: "('k \<times> 'v) list \<Rightarrow> ('k \<times> 'v) list \<Rightarrow> ('k \<times> 'v) list" where
  "dict_update d items = fold (\<lambda>(k, v). AList.update k v) items d"

text \<open>The literal \<open>{'characters': c, 'reading': r, 'meaning': m}\<close>.\<close>

abbreviation element :: "string \<Rightarrow> string \<Rightarrow> string \<Rightarrow> (string \<times> string) list" where
  "element c r m \<equiv> [(''characters'', c), (''reading'', r), (''meaning'', m)]"

definition beginner_particles :: "(string \<times> (string \<times> string) list) list" where
  "beginner_particles =
     [(kana_ha, element kana_ha ''wa'' ''topic marker''),
      (kana_ga, element kana_ga ''ga'' ''subject marker''),
      (kana_wo, element kana_wo ''o'' ''object marker''),
      (kana_ni, element kana_ni ''ni'' ''indirect object, destination''),
      (kana_de, element kana_de ''de'' ''location of action''),
      (kana_no, element kana_no ''no'' ''possession''),
      (kana_to, element kana_to ''to'' ''with, and''),
      (kana_mo, element kana_mo ''mo'' ''also, too'')]"

definition beginner_verb_endings :: "(string \<times> (string \<times> string) list) list" where
  "beginner_verb_endings =
     [(kana_ma @ kana_su, element (kana_ma @ kana_su) ''masu'' ''polite present''),
      (kana_ma @ kana_shi @ kana_ta, element (kana_ma @ kana_shi @ kana_ta) ''mashita'' ''polite past''),
      (kana_ma @ kana_se @ kana_n, element (kana_ma @ kana_se @ kana_n) ''masen'' ''polite negative'')]"

definition intermediate_particles :: "(string \<times> (string \<times> string) list) list" where
  "intermediate_particles =
     [(kana_he, element kana_he ''e'' ''towards''),
      (kana_ka @ kana_ra, element (kana_ka @ kana_ra) ''kara'' ''from''),
      (kana_ma @ kana_de, element (kana_ma @ kana_de) ''made'' ''until''),
      (kana_yo @ kana_ri, element (kana_yo @ kana_ri) ''yori'' ''than''),
      (kana_da @ kana_ke, element (kana_da @ kana_ke) ''dake'' ''only'')]"

definition intermediate_verb_endings :: "(string \<times> (string \<times> string) list) list" where
  "intermediate_verb_endings =
     [(kana_te, element kana_te ''te'' ''te-form''),
      (kana_ta, element kana_ta ''ta'' ''past''),
      (kana_na @ kana_i, element (kana_na @ kana_i) ''nai'' ''negative'')]"

definition GRAMMAR_ELEMENTS ::
  "(string \<times> (string \<times> (string \<times> (string \<times> string) list) list) list) list" where
  "GRAMMAR_ELEMENTS =
     [(''beginner'',
         [(''particles'', beginner_particles), (''verb_endings'', beginner_verb_endings)]),
      (''intermediate'',
         [(''particles'', intermediate_particles), (''verb_endings'', intermediate_verb_endings)])]"

text \<open>
  \<open>get_grammar_elements\<close>. The body of the loop over one level's categories:
  \<open>if category not in elements: elements[category] = {}\<close>, then
  \<open>elements[category].update(items)\<close>.
\<close>

definition merge_category ::
  "string \<Rightarrow> (string \<times> (string \<times> string) list) list
     \<Rightarrow> (string \<times> (string \<times> (string \<times> string) list) list) list
     \<Rightarrow> (string \<times> (string \<times> (string \<times> string) list) list) list" where
  "merge_category category items elements =
     (let current = (case map_of elements category of None \<Rightarrow> [] | Some d \<Rightarrow> d)
      in AList.update category (dict_update current items) elements)"

definition merge_level ::
  "string \<Rightarrow> (string \<times> (string \<times> (string \<times> string) list) list) list
     \<Rightarrow> (string \<times> (string \<times> (string \<times> string) list) list) list" where
  "merge_level lvl elements =
     (case map_of GRAMMAR_ELEMENTS lvl of
        None \<Rightarrow> elements
      | Some categories \<Rightarrow> fold (\<lambda>(category, items). merge_category category items) categories elements)"

definition get_grammar_elements ::
  "SentenceBuilder \<Rightarrow> (string \<times> (string \<times> (string \<times> string) list) list) list" where
  "get_grammar_elements self = fold merge_level [''beginner'', grammar_level self] []"

subsection \<open>The template sentence\<close>

text \<open>Raising is the left summand; \<open>bind_err\<close> runs the rest only after a normal return.\<close>

definition bind_err :: "error + 'a \<Rightarrow> ('a \<Rightarrow> error + 'b) \<Rightarrow> error + 'b" where
  "bind_err m f = (case m of Inl e \<Rightarrow> Inl e | Inr v \<Rightarrow> f v)"

text \<open>
  \<open>random.choice(seq)\<close> raises IndexError on an empty sequence and otherwise returns
  the element at a random index; \<open>r\<close> is the random draw, so all \<open>r\<close> together give
  every possible outcome.
\<close>

definition choice :: "nat \<Rightarrow> 'a list \<Rightarrow> error + 'a" where
  "choice r seq = (if seq = [] then Inl IndexError else Inr (seq ! (r mod length seq)))"

text \<open>
  A slot of the sentence is a vocabulary item or a grammar element (a \<open>dict\<close>); the
  source tells them apart with \<open>isinstance(item, dict)\<close>.
\<close>

datatype slot = Item WaniKaniItem | Dict "(string \<times> string) list"

definition slot_characters :: "slot \<Rightarrow> error + string option" where
  "slot_characters item =
     (case item of
        Dict d \<Rightarrow> bind_err (getitem d ''characters'') (\<lambda>c. Inr (Some c))
      | Item w \<Rightarrow> Inr (Some (characters w)))"

definition slot_reading :: "slot \<Rightarrow> error + string option" where
  "slot_reading item =
     (case item of
        Dict d \<Rightarrow> bind_err (getitem d ''reading'') (\<lambda>r. Inr (Some r))
      | Item w \<Rightarrow> Inr (primary_reading w))"

text \<open>
  \<open>"".join(generator)\<close>: the generator is run to its end first (its first exception
  is raised), then a part that is \<open>None\<close> makes \<open>join\<close> raise TypeError.
\<close>

fun collect :: "(error + 'a) list \<Rightarrow> error + 'a list" where
  "collect [] = Inr []"
| "collect (x # xs) = bind_err x (\<lambda>v. bind_err (collect xs) (\<lambda>vs. Inr (v # vs)))"

definition str_join :: "(error + string option) list \<Rightarrow> error + string" where
  "str_join parts =
     bind_err (collect parts)
       (\<lambda>vals. case those vals of None \<Rightarrow> Inl TypeError | Some strs \<Rightarrow> Inr (concat strs))"

text \<open>
  \<open>build_basic_sentence\<close>, with the three random draws \<open>r1\<close>, \<open>r2\<close>, \<open>r3\<close> in the
  order the code makes them. \<open>Inr None\<close> is the return value \<open>None\<close>.
\<close>

definition build_basic_sentence ::
  "SentenceBuilder \<Rightarrow> nat \<Rightarrow> nat \<Rightarrow> nat \<Rightarrow> error + (string \<times> string \<times> slot list) option" where
  "build_basic_sentence self r1 r2 r3 =
     (let available_words = get_available_words_by_pos self;
          grammar = get_grammar_elements self
      in bind_err (getitem available_words ''noun'') (\<lambda>nouns.
         if nouns = [] then Inr None
         else bind_err (getitem available_words ''verb'') (\<lambda>verbs.
         if verbs = [] then Inr None
         else bind_err (choice r1 nouns) (\<lambda>subject.
              bind_err (choice r2 (filter (\<lambda>n. n \<noteq> subject) nouns)) (\<lambda>object.
              bind_err (choice r3 verbs) (\<lambda>verb.
              let particles = (case map_of grammar ''particles'' of None \<Rightarrow> [] | Some p \<Rightarrow> p)
              in bind_err (getitem particles kana_ha) (\<lambda>wa.
                 bind_err (getitem particles kana_wo) (\<lambda>wo.
                 let sentence_items = [Item subject, Dict wa, Item object, Dict wo, Item verb]
                 in bind_err (str_join (map slot_characters sentence_items)) (\<lambda>japanese.
                    bind_err (str_join (map slot_reading sentence_items)) (\<lambda>reading.
                    Inr (Some (japanese, reading, sentence_items))))))))))))"

subsection \<open>The prompt\<close>

abbreviation nl :: string where "nl \<equiv> [CHR 0x0A]"

text \<open>
  \<open>str.title()\<close> on ASCII text (the program applies it only to its own ASCII keys): a
  cased letter is upper case when the character before it is not cased, lower case
  otherwise.
\<close>

definition is_lower :: "char \<Rightarrow> bool" where
  "is_lower c = (97 \<le> (of_char c :: nat) \<and> (of_char c :: nat) \<le> 122)"

definition is_upper :: "char \<Rightarrow> bool" where
  "is_upper c = (65 \<le> (of_char c :: nat) \<and> (of_char c :: nat) \<le> 90)"

definition to_upper :: "char \<Rightarrow> char" where
  "to_upper c = char_of ((of_char c :: nat) - 32)"

definition to_lower :: "char \<Rightarrow> char" where
  "to_lower c = char_of ((of_char c :: nat) + 32)"

fun title_from :: "bool \<Rightarrow> string \<Rightarrow> string" where
  "title_from previous_is_cased [] = []"
| "title_from previous_is_cased (c # cs) =
     (if is_lower c then (if previous_is_cased then c else to_upper c) # title_from True cs
      else if is_upper c then (if previous_is_cased then to_lower c else c) # title_from True cs
      else c # title_from False cs)"

definition title :: "string \<Rightarrow> string" where
  "title s = title_from False s"

text \<open>What an f-string prints for an optional string, and for an integer.\<close>

definition str_opt :: "string option \<Rightarrow> string" where
  "str_opt v = (case v of None \<Rightarrow> ''None'' | Some s \<Rightarrow> s)"

fun str_nat :: "nat \<Rightarrow> string" where
  "str_nat n =
     (if n < 10 then [char_of (48 + n)] else str_nat (n div 10) @ [char_of (48 + n mod 10)])"

declare str_nat.simps [simp del]

definition str_int :: "int \<Rightarrow> string" where
  "str_int i = (if i < 0 then CHR ''-'' # str_nat (nat (- i)) else str_nat (nat i))"

definition word_line :: "WaniKaniItem \<Rightarrow> string" where
  "word_line word =
     ''- '' @ characters word @ '' ('' @ str_opt (primary_reading word) @ '') - ''
       @ str_opt (primary_meaning word) @ nl"

definition element_line :: "(string \<times> string) list \<Rightarrow> error + string" where
  "element_line info =
     bind_err (getitem info ''characters'') (\<lambda>c.
     bind_err (getitem info ''reading'') (\<lambda>r.
     bind_err (getitem info ''meaning'') (\<lambda>m.
     Inr (''- '' @ c @ '' ('' @ r @ '') - '' @ m @ nl))))"

definition pos_block :: "string \<times> WaniKaniItem list \<Rightarrow> string" where
  "pos_block entry =
     (case entry of (pos, words) \<Rightarrow>
        if words = [] then []
        else nl @ title pos @ ''s:'' @ nl @ concat (map word_line (take 5 words)))"

definition category_block :: "string \<times> (string \<times> (string \<times> string) list) list \<Rightarrow> error + string" where
  "category_block entry =
     (case entry of (category, elements) \<Rightarrow>
        bind_err (collect (map (\<lambda>(char, info). element_line info) elements))
          (\<lambda>lines. Inr (nl @ title category @ '':'' @ nl @ concat lines)))"

definition get_vocabulary_prompt :: "SentenceBuilder \<Rightarrow> error + string" where
  "get_vocabulary_prompt self =
     (let available_words = get_available_words_by_pos self;
          grammar = get_grammar_elements self
      in bind_err (collect (map category_block grammar)) (\<lambda>blocks.
         Inr (''Generate a natural Japanese sentence using these components:'' @ nl @ nl
              @ ''Available vocabulary:'' @ nl
              @ concat (map pos_block available_words)
              @ nl @ ''Available grammar elements:'' @ nl
              @ concat blocks
              @ nl @ ''Please generate a natural sentence using some of these vocabulary items and grammar elements.'')))"

subsection \<open>Generation with the language model\<close>

abbreviation quoted :: "string \<Rightarrow> string" where
  "quoted s \<equiv> [CHR 0x22] @ s @ [CHR 0x22]"

abbreviation indent :: "nat \<Rightarrow> string" where
  "indent n \<equiv> replicate n CHR '' ''"

text \<open>The example of the reply's format that ends the prompt, byte for byte.\<close>

definition json_format_example :: string where
  "json_format_example =
     nl @
     ''{'' @ nl @
     indent 2 @ quoted ''sentences'' @ '': ['' @ nl @
     indent 4 @ ''{'' @ nl @
     indent 6 @ quoted ''japanese'' @ '': '' @
       quoted [CHR 0xE6, CHR 0x97, CHR 0xA5, CHR 0xE6, CHR 0x9C, CHR 0xAC, CHR 0xE8, CHR 0xAA,
         CHR 0x9E, CHR 0xE3, CHR 0x82, CHR 0x92, CHR 0xE5, CHR 0x8B, CHR 0x89, CHR 0xE5,
         CHR 0xBC, CHR 0xB7, CHR 0xE3, CHR 0x81, CHR 0x97, CHR 0xE3, CHR 0x81, CHR 0xBE,
         CHR 0xE3, CHR 0x81, CHR 0x99] @ '','' @ nl @
     indent 6 @ quoted ''reading'' @ '': '' @
       quoted [CHR 0xE3, CHR 0x81, CHR 0xAB, CHR 0xE3, CHR 0x81, CHR 0xBB, CHR 0xE3, CHR 0x82,
         CHR 0x93, CHR 0xE3, CHR 0x81, CHR 0x94, CHR 0xE3, CHR 0x82, CHR 0x92, CHR 0xE3,
         CHR 0x81, CHR 0xB9, CHR 0xE3, CHR 0x82, CHR 0x93, CHR 0xE3, CHR 0x81, CHR 0x8D,
         CHR 0xE3, CHR 0x82, CHR 0x87, CHR 0xE3, CHR 0x81, CHR 0x86, CHR 0xE3, CHR 0x81,
         CHR 0x97, CHR 0xE3, CHR 0x81, CHR 0xBE, CHR 0xE3, CHR 0x81, CHR 0x99] @ '','' @ nl @
     indent 6 @ quoted ''english'' @ '': '' @ quoted ''I will study Japanese'' @ '','' @ nl @
     indent 6 @ quoted ''word_by_word'' @ '': ['' @ nl @
     indent 8 @ ''{'' @ nl @
     indent 10 @ quoted ''word'' @ '': '' @
       quoted [CHR 0xE6, CHR 0x97, CHR 0xA5, CHR 0xE6, CHR 0x9C, CHR 0xAC, CHR 0xE8, CHR 0xAA,
         CHR 0x9E] @ '','' @ nl @
     indent 10 @ quoted ''reading'' @ '': '' @
       quoted [CHR 0xE3, CHR 0x81, CHR 0xAB, CHR 0xE3, CHR 0x81, CHR 0xBB, CHR 0xE3, CHR 0x82,
         CHR 0x93, CHR 0xE3, CHR 0x81, CHR 0x94] @ '','' @ nl @
     indent 10 @ quoted ''meaning'' @ '': '' @ quoted ''Japanese language'' @ '','' @ nl @
     indent 10 @ quoted ''pos'' @ '': '' @ quoted ''noun'' @ nl @
     indent 8 @ ''},'' @ nl @
     indent 8 @ ''{'' @ nl @
     indent 10 @ quoted ''word'' @ '': '' @ quoted [CHR 0xE3, CHR 0x82, CHR 0x92] @ '','' @ nl @
     indent 10 @ quoted ''reading'' @ '': '' @ quoted [CHR 0xE3, CHR 0x82, CHR 0x92] @ '','' @
       nl @
     indent 10 @ quoted ''meaning'' @ '': '' @ quoted ''object marker'' @ '','' @ nl @
     indent 10 @ quoted ''pos'' @ '': '' @ quoted ''particle'' @ nl @
     indent 8 @ ''},'' @ nl @
     indent 8 @ ''{'' @ nl @
     indent 10 @ quoted ''word'' @ '': '' @
       quoted [CHR 0xE5, CHR 0x8B, CHR 0x89, CHR 0xE5, CHR 0xBC, CHR 0xB7] @ '','' @ nl @
     indent 10 @ quoted ''reading'' @ '': '' @
       quoted [CHR 0xE3, CHR 0x81, CHR 0xB9, CHR 0xE3, CHR 0x82, CHR 0x93, CHR 0xE3, CHR 0x81,
         CHR 0x8D, CHR 0xE3, CHR 0x82, CHR 0x87, CHR 0xE3, CHR 0x81, CHR 0x86] @ '','' @ nl @
     indent 10 @ quoted ''meaning'' @ '': '' @ quoted ''study'' @ '','' @ nl @
     indent 10 @ quoted ''pos'' @ '': '' @ quoted ''noun'' @ nl @
     indent 8 @ ''},'' @ nl @
     indent 8 @ ''{'' @ nl @
     indent 10 @ quoted ''word'' @ '': '' @
       quoted [CHR 0xE3, CHR 0x81, CHR 0x97, CHR 0xE3, CHR 0x81, CHR 0xBE, CHR 0xE3, CHR 0x81,
         CHR 0x99] @ '','' @ nl @
     indent 10 @ quoted ''reading'' @ '': '' @
       quoted [CHR 0xE3, CHR 0x81, CHR 0x97, CHR 0xE3, CHR 0x81, CHR 0xBE, CHR 0xE3, CHR 0x81,
         CHR 0x99] @ '','' @ nl @
     indent 10 @ quoted ''meaning'' @ '': '' @ quoted ''to do'' @ '','' @ nl @
     indent 10 @ quoted ''pos'' @ '': '' @ quoted ''verb'' @ nl @
     indent 8 @ ''}'' @ nl @
     indent 6 @ '']'' @ nl @
     indent 4 @ ''}'' @ nl @
     indent 2 @ '']'' @ nl @
     ''}'' @ nl"

definition format_request :: "int \<Rightarrow> string" where
  "format_request num_sentences =
     nl @ nl @ ''Please generate '' @ str_int num_sentences
       @ '' natural Japanese sentence(s) and provide:'' @ nl
     @ ''1. The Japanese sentence'' @ nl
     @ ''2. The reading in hiragana'' @ nl
     @ ''3. English translation'' @ nl
     @ ''4. Word-by-word breakdown showing:'' @ nl
     @ ''   - The word in Japanese'' @ nl
     @ ''   - Its reading'' @ nl
     @ ''   - Its meaning'' @ nl
     @ ''   - Its part of speech'' @ nl @ nl
     @ ''Format your response in JSON like this:'' @ nl
     @ json_format_example"

text \<open>
  The request to the model is outside the program: \<open>llm\<close> gives, for the prompt sent,
  what the statements from \<open>openai.OpenAI(...)\<close> to \<open>response.choices[0].message.content\<close>
  come to: an exception (\<open>RequestFailed\<close>, whatever its class) or the text of the reply.
  \<open>json_loads\<close> is the library's parser, \<open>None\<close> where it raises JSONDecodeError (a
  ValueError).
\<close>

datatype llm_reply = RequestFailed | Content string

text \<open>\<open>v[k]\<close> with a string \<open>k\<close> on a parsed JSON value: only a dictionary has string keys.\<close>

definition subscript :: "json \<Rightarrow> string \<Rightarrow> error + json" where
  "subscript v k = (case v of JObj kvs \<Rightarrow> getitem kvs k | _ \<Rightarrow> Inl TypeError)"

text \<open>The statements inside \<open>try\<close>.\<close>

definition request_sentences ::
  "(string \<Rightarrow> json option) \<Rightarrow> (string \<Rightarrow> llm_reply) \<Rightarrow> string \<Rightarrow> error + json" where
  "request_sentences json_loads llm prompt =
     (case llm prompt of
        RequestFailed \<Rightarrow> Inl RequestError
      | Content text \<Rightarrow>
          (case json_loads text of
             None \<Rightarrow> Inl ValueError
           | Some result \<Rightarrow> subscript result ''sentences''))"

text \<open>
  \<open>generate_sentence_with_gpt\<close>: the check of the key and the prompt come before the
  \<open>try\<close>; \<open>except Exception\<close> turns every exception of the \<open>try\<close> into the empty list.
\<close>

definition generate_sentence_with_gpt ::
  "(string \<Rightarrow> json option) \<Rightarrow> (string \<Rightarrow> llm_reply) \<Rightarrow> SentenceBuilder \<Rightarrow> int \<Rightarrow> error + json" where
  "generate_sentence_with_gpt json_loads llm self num_sentences =
     (if \<not> str_truthy (openai_api_key self) then Inl ValueError
      else bind_err (get_vocabulary_prompt self) (\<lambda>p.
           let prompt = p @ format_request num_sentences
           in case request_sentences json_loads llm prompt of
                Inl e \<Rightarrow> Inr (JList [])
              | Inr sentences \<Rightarrow> Inr sentences))"

section \<open>The knowledge aggregator (wanikani/client.py, main.py)\<close>

text \<open>
  The records of the remote service, as the code reads them. A field the code reads with
  \<open>.get\<close> is optional: \<open>None\<close> stands for a key that is missing (for \<open>started_at\<close>,
  missing or \<open>null\<close>: the code tests \<open>.get("started_at") is not None\<close>).
\<close>

record Assignment =
  subject_id :: int
  subject_type :: string
  srs_stage_a :: "int option"
  started_at :: "string option"

record RawMeaning =
  meaning_raw :: string
  primary_raw_m :: "bool option"
  accepted_answer_raw_m :: "bool option"

record RawReading =
  reading_raw :: string
  primary_raw_r :: "bool option"
  accepted_answer_raw_r :: "bool option"
  type_raw_r :: "string option"

record RawSubject =
  id_raw :: int
  object_raw :: string
  level_raw :: int
  characters_raw :: string
  meanings_raw :: "RawMeaning list"
  readings_raw :: "RawReading list"
  parts_of_speech_raw :: "string list option"
  component_subject_ids_raw :: "int list option"
  user_specific_data_raw :: "(string \<rightharpoonup> json) option"

definition get_or :: "'a option \<Rightarrow> 'a \<Rightarrow> 'a" where
  "get_or v fallback = (case v of None \<Rightarrow> fallback | Some x \<Rightarrow> x)"

definition convert_meaning :: "RawMeaning \<Rightarrow> Meaning" where
  "convert_meaning m =
     \<lparr>meaning = meaning_raw m, primary_m = get_or (primary_raw_m m) False,
      accepted_answer_m = get_or (accepted_answer_raw_m m) True\<rparr>"

definition convert_reading :: "RawReading \<Rightarrow> Reading" where
  "convert_reading r =
     \<lparr>reading = reading_raw r, primary_r = get_or (primary_raw_r r) False,
      accepted_answer_r = get_or (accepted_answer_raw_r r) True,
      type_r = get_or (type_raw_r r) ''reading''\<rparr>"

text \<open>\<open>WaniKaniAPI._convert_to_wanikani_item\<close>.\<close>

definition convert_to_wanikani_item :: "RawSubject \<Rightarrow> int option \<Rightarrow> WaniKaniItem" where
  "convert_to_wanikani_item raw_data stage =
     \<lparr>item_id = id_raw raw_data,
      object_kind = object_raw raw_data,
      level = level_raw raw_data,
      characters = characters_raw raw_data,
      meanings = map convert_meaning (meanings_raw raw_data),
      readings = map convert_reading (readings_raw raw_data),
      parts_of_speech = get_or (parts_of_speech_raw raw_data) [],
      component_subject_ids = get_or (component_subject_ids_raw raw_data) [],
      srs_stage = stage,
      user_specific_data = Some (get_or (user_specific_data_raw raw_data) Map.empty)\<rparr>"

text \<open>
  The dictionary comprehension \<open>assignment_lookup\<close> of \<open>get_user_knowledge\<close>, record by
  record from the empty dictionary: the condition is tested first, and
  \<open>a["data"]["srs_stage"]\<close> raises KeyError when a record that passes it has no stage.
\<close>

fun assignment_lookup_loop ::
  "Assignment list \<Rightarrow> (int \<rightharpoonup> int) \<Rightarrow> error + (int \<rightharpoonup> int)" where
  "assignment_lookup_loop [] acc = Inr acc"
| "assignment_lookup_loop (a # rest) acc =
     (if started_at a \<noteq> None
      then (case srs_stage_a a of
              None \<Rightarrow> Inl KeyError
            | Some stage \<Rightarrow> assignment_lookup_loop rest (acc(subject_id a \<mapsto> stage)))
      else assignment_lookup_loop rest acc)"

definition assignment_lookup :: "Assignment list \<Rightarrow> error + (int \<rightharpoonup> int)" where
  "assignment_lookup assignments = assignment_lookup_loop assignments Map.empty"

text \<open>
  \<open>get_user_knowledge\<close> between its fetches and its write to the cache: the join of the
  assignments with the subjects fetched for the user's level.
\<close>

definition build_snapshot ::
  "int \<Rightarrow> Assignment list \<Rightarrow> RawSubject list \<Rightarrow> RawSubject list \<Rightarrow> error + UserKnowledge" where
  "build_snapshot user_level assignments vocab_data kanji_data =
     bind_err (assignment_lookup assignments) (\<lambda>lookup.
       Inr \<lparr>vocabulary = map (\<lambda>v. convert_to_wanikani_item v (lookup (id_raw v))) vocab_data,
            kanji = map (\<lambda>k. convert_to_wanikani_item k (lookup (id_raw k))) kanji_data,
            level_k = user_level\<rparr>)"

text \<open>
  \<open>fetch_vocabulary\<close> of main.py, after its two fetches: the comprehension
  \<open>started_vocab\<close> and the loop that keeps the subjects found in it.
\<close>

fun started_vocab_loop :: "Assignment list \<Rightarrow> (int \<rightharpoonup> int) \<Rightarrow> (int \<rightharpoonup> int)" where
  "started_vocab_loop [] acc = acc"
| "started_vocab_loop (a # rest) acc =
     (if started_at a \<noteq> None \<and> subject_type a = ''vocabulary''
      then started_vocab_loop rest (acc(subject_id a \<mapsto> get_or (srs_stage_a a) 0))
      else started_vocab_loop rest acc)"

definition started_vocab_of :: "Assignment list \<Rightarrow> (int \<rightharpoonup> int)" where
  "started_vocab_of assignments = started_vocab_loop assignments Map.empty"

definition fetch_vocabulary :: "RawSubject list \<Rightarrow> Assignment list \<Rightarrow> WaniKaniItem list" where
  "fetch_vocabulary vocab_response assignments =
     (let started = started_vocab_of assignments
      in concat (map (\<lambda>item.
           case started (id_raw item) of
             None \<Rightarrow> []
           | Some stage \<Rightarrow>
               [(convert_to_wanikani_item item (Some stage))
                  \<lparr>user_specific_data := Some [''started_at'' \<mapsto> JStr ''2024-01-01'']\<rparr>])
         vocab_response))"

section \<open>The cache (wanikani/client.py)\<close>

text \<open>
  The cache directory is a map from paths to what \<open>json.load\<close> makes of the file there:
  a document, or \<open>NotJson\<close> when it raises (a ValueError). \<open>json.dump\<close> followed by
  \<open>json.load\<close> is taken to give back the document written.

  A reading of the clock (\<open>datetime.now()\<close>, a naive datetime) is a count of microseconds.
  \<open>fromisoformat\<close> gives a naive datetime or, for a string that carries a UTC offset, an
  aware one; \<open>isoformat\<close> writes a reading of the clock. Both are the library's and are
  parameters (\<open>None\<close> where \<open>fromisoformat\<close> raises ValueError).
\<close>

datatype file_content = NotJson | Document json

datatype datetime = Naive nat | Aware nat

definition cache_path :: "string \<Rightarrow> string" where
  "cache_path filename = ''wanikani/cache/'' @ filename @ ''.json''"

definition save_cache ::
  "(nat \<Rightarrow> string) \<Rightarrow> nat \<Rightarrow> (string \<rightharpoonup> file_content) \<Rightarrow> json \<Rightarrow> string
     \<Rightarrow> (string \<rightharpoonup> file_content)" where
  "save_cache isoformat now files data filename =
     (let cache_data = JObj [(''timestamp'', JStr (isoformat now)), (''data'', data)]
      in files(cache_path filename \<mapsto> Document cache_data))"

text \<open>\<open>datetime.fromisoformat(v)\<close>: TypeError unless \<open>v\<close> is a string.\<close>

definition parse_timestamp :: "(string \<Rightarrow> datetime option) \<Rightarrow> json \<Rightarrow> error + datetime" where
  "parse_timestamp fromisoformat v =
     (case v of
        JStr s \<Rightarrow> (case fromisoformat s of None \<Rightarrow> Inl ValueError | Some t \<Rightarrow> Inr t)
      | _ \<Rightarrow> Inl TypeError)"

text \<open>
  \<open>datetime.now() - cache_time\<close>: the difference in microseconds (negative when the clock
  was set back); subtracting an aware datetime from the naive \<open>now\<close> raises TypeError.
\<close>

definition subtract_from_now :: "nat \<Rightarrow> datetime \<Rightarrow> error + int" where
  "subtract_from_now now cache_time =
     (case cache_time of
        Naive t \<Rightarrow> Inr (int now - int t)
      | Aware t \<Rightarrow> Inl TypeError)"

text \<open>
  \<open>age.total_seconds() / 3600 > max_age_hours\<close> on an age of so many microseconds:
  \<open>total_seconds\<close> is the microseconds divided by \<open>10**6\<close>, both divisions are floating
  point divisions, and the comparison of the float with the integer is exact. \<open>fl\<close> is the
  rounding of a real number to the nearest float.
\<close>

definition age_exceeds :: "(real \<Rightarrow> real) \<Rightarrow> int \<Rightarrow> int \<Rightarrow> bool" where
  "age_exceeds fl age max_age_hours =
     (fl (fl (real_of_int age / 1000000) / 3600) > real_of_int max_age_hours)"

text \<open>The statements inside \<open>try\<close>.\<close>

definition read_cache ::
  "(string \<Rightarrow> datetime option) \<Rightarrow> (real \<Rightarrow> real) \<Rightarrow> nat \<Rightarrow> (string \<rightharpoonup> file_content)
     \<Rightarrow> string \<Rightarrow> int \<Rightarrow> error + json option" where
  "read_cache fromisoformat fl now files filename max_age_hours =
     (case files (cache_path filename) of
        None \<Rightarrow> Inl FileNotFoundError
      | Some NotJson \<Rightarrow> Inl ValueError
      | Some (Document cache_data) \<Rightarrow>
          bind_err (subscript cache_data ''timestamp'') (\<lambda>stamp.
          bind_err (parse_timestamp fromisoformat stamp) (\<lambda>cache_time.
          bind_err (subtract_from_now now cache_time) (\<lambda>age.
          if age_exceeds fl age max_age_hours then Inr None
          else bind_err (subscript cache_data ''data'') (\<lambda>data. Inr (Some data))))))"

text \<open>\<open>load_cache\<close>: \<open>except (FileNotFoundError, KeyError, ValueError): return None\<close>.\<close>

definition load_cache ::
  "(string \<Rightarrow> datetime option) \<Rightarrow> (real \<Rightarrow> real) \<Rightarrow> nat \<Rightarrow> (string \<rightharpoonup> file_content)
     \<Rightarrow> string \<Rightarrow> int \<Rightarrow> error + json option" where
  "load_cache fromisoformat fl now files filename max_age_hours =
     (case read_cache fromisoformat fl now files filename max_age_hours of
        Inl e \<Rightarrow> if e = FileNotFoundError \<or> e = KeyError \<or> e = ValueError then Inr None else Inl e
      | Inr r \<Rightarrow> Inr r)"

section \<open>Notions used in the statements\<close>

text \<open>
  The test \<open>word.user_specific_data.get('started_at')\<close> of \<open>_initialize_started_vocab\<close>, as
  a predicate on an item (false when there is no dictionary to ask).
\<close>

definition has_started_at :: "WaniKaniItem \<Rightarrow> bool" where
  "has_started_at word =
     (case user_specific_data word of None \<Rightarrow> False | Some d \<Rightarrow> truthy (dict_get d ''started_at''))"

text \<open>One tier of \<open>GRAMMAR_ELEMENTS\<close>, and the entry of a table under a category and a key.\<close>

definition grammar_tier :: "string \<Rightarrow> (string \<times> (string \<times> (string \<times> string) list) list) list" where
  "grammar_tier lvl = get_or (map_of GRAMMAR_ELEMENTS lvl) []"

definition grammar_entry ::
  "(string \<times> (string \<times> (string \<times> string) list) list) list \<Rightarrow> string \<Rightarrow> string
     \<Rightarrow> (string \<times> string) list option" where
  "grammar_entry table category key =
     (case map_of table category of None \<Rightarrow> None | Some d \<Rightarrow> map_of d key)"

section \<open>Sample data\<close>

text \<open>
  A vocabulary item with one primary reading and one part of speech, and the snapshots the
  concrete checks below run on: \<open>ishi\<close> and \<open>tani\<close> are started nouns, \<open>kesu\<close> is a
  started verb, \<open>kani\<close> is a noun with an SRS stage and an empty \<open>user_specific_data\<close>.
\<close>

definition sample_item :: "int \<Rightarrow> string \<Rightarrow> string \<Rightarrow> (string \<rightharpoonup> json) \<Rightarrow> WaniKaniItem" where
  "sample_item i chars pos usd =
     \<lparr>item_id = i, object_kind = ''vocabulary'', level = 1, characters = chars,
      meanings = [\<lparr>meaning = ''word'', primary_m = True, accepted_answer_m = True\<rparr>],
      readings = [\<lparr>reading = chars, primary_r = True, accepted_answer_r = True,
                   type_r = ''reading''\<rparr>],
      parts_of_speech = [pos], component_subject_ids = [], srs_stage = Some 5,
      user_specific_data = Some usd\<rparr>"

definition started_data :: "string \<rightharpoonup> json" where
  "started_data = [''started_at'' \<mapsto> JStr ''2024-01-01'']"

definition ishi :: WaniKaniItem where
  "ishi = sample_item 1 (kana_i @ kana_shi) ''noun'' started_data"

definition tani :: WaniKaniItem where
  "tani = sample_item 2 (kana_ta @ kana_ni) ''noun'' started_data"

definition kesu :: WaniKaniItem where
  "kesu = sample_item 3 (kana_ke @ kana_su) ''godan verb'' started_data"

definition kani :: WaniKaniItem where
  "kani = sample_item 4 (kana_ka @ kana_ni) ''noun'' Map.empty"

definition sample_knowledge :: "WaniKaniItem list \<Rightarrow> UserKnowledge" where
  "sample_knowledge vocab = \<lparr>vocabulary = vocab, kanji = [], level_k = 3\<rparr>"

definition sample_builder :: "WaniKaniItem list \<Rightarrow> int set \<Rightarrow> string \<Rightarrow> SentenceBuilder" where
  "sample_builder vocab started lvl =
     \<lparr>knowledge = sample_knowledge vocab, grammar_level = lvl, started_vocab = started,
      openai_api_key = None\<rparr>"

definition mata :: WaniKaniItem where
  "mata = sample_item 5 (kana_ma @ kana_ta) ''adverb'' started_data"

text \<open>An item with the id of \<open>ishi\<close> and an empty \<open>user_specific_data\<close>.\<close>

definition ishi_unstarted :: WaniKaniItem where
  "ishi_unstarted = sample_item 1 (kana_i @ kana_shi) ''noun'' Map.empty"

definition keyed_builder :: SentenceBuilder where
  "keyed_builder =
     (sample_builder [ishi, tani, kesu] {1, 2, 3} ''beginner'')\<lparr>openai_api_key := Some ''sk-sample''\<rparr>"

text \<open>
  Assignment records: subject 1 with an SRS stage and no \<open>started_at\<close>, subject 1 started,
  subject 2 started; and the subjects 1 and 2 as the service sends them.
\<close>

definition pending_record :: Assignment where
  "pending_record =
     \<lparr>subject_id = 1, subject_type = ''vocabulary'', srs_stage_a = Some 3, started_at = None\<rparr>"

definition started_record :: "int \<Rightarrow> Assignment" where
  "started_record s =
     \<lparr>subject_id = s, subject_type = ''vocabulary'', srs_stage_a = Some 5,
      started_at = Some ''2024-01-01T09:00:00.000000Z''\<rparr>"

definition raw_subject :: "int \<Rightarrow> string \<Rightarrow> RawSubject" where
  "raw_subject i chars =
     \<lparr>id_raw = i, object_raw = ''vocabulary'', level_raw = 1, characters_raw = chars,
      meanings_raw = [\<lparr>meaning_raw = ''word'', primary_raw_m = Some True,
                       accepted_answer_raw_m = None\<rparr>],
      readings_raw = [\<lparr>reading_raw = chars, primary_raw_r = Some True,
                       accepted_answer_raw_r = None, type_raw_r = None\<rparr>],
      parts_of_speech_raw = Some [''noun''], component_subject_ids_raw = None,
      user_specific_data_raw = None\<rparr>"

text \<open>A codec for clock readings that reads back what it wrote, for the concrete checks.\<close>

definition tally :: "nat \<Rightarrow> string" where
  "tally t = replicate t CHR ''I''"

definition untally :: "string \<Rightarrow> datetime option" where
  "untally s = (if s = replicate (length s) CHR ''I'' then Some (Naive (length s)) else None)"

section \<open>Properties\<close>

subsection \<open>Substrings and \<open>_normalize_pos\<close>\<close>

lemma str_in_iff: "str_in sub s \<longleftrightarrow> (\<exists>ps ss. s = ps @ sub @ ss)"
  by (simp add: str_in_def sublist_def)

lemma str_in_trans: "str_in a b \<Longrightarrow> str_in b c \<Longrightarrow> str_in a c"
  by (auto simp: str_in_iff) (metis append.assoc)

lemma verb_in_ichidan: "str_in ''verb'' ''ichidan verb''"
  unfolding str_in_def by (simp add: sublist_Cons_right)

lemma verb_in_godan: "str_in ''verb'' ''godan verb''"
  unfolding str_in_def by (simp add: sublist_Cons_right)

lemma verb_in_adverb: "str_in ''verb'' ''adverb''"
  unfolding str_in_def by (simp add: sublist_Cons_right)

text \<open>The first test of \<open>_normalize_pos\<close> is the test for \<open>"verb"\<close> alone.\<close>

lemma normalize_pos_verb_iff:
  "list_ex (\<lambda>verb_type. str_in verb_type pos) [''ichidan verb'', ''godan verb'', ''verb'']
     \<longleftrightarrow> str_in ''verb'' pos"
  using str_in_trans [OF verb_in_ichidan] str_in_trans [OF verb_in_godan] by auto

lemma normalize_pos_cases:
  "normalize_pos pos =
     (if str_in ''verb'' pos then ''verb''
      else if str_in (kana_i @ '' adjective'') pos \<or> str_in (kana_na @ '' adjective'') pos
              \<or> str_in (kana_no @ '' adjective'') pos then ''adjective''
      else pos)"
  unfolding normalize_pos_def normalize_pos_verb_iff by simp

lemma normalize_pos_not_adverb: "normalize_pos pos \<noteq> ''adverb''"
  using verb_in_adverb by (auto simp: normalize_pos_cases)

subsection \<open>The buckets of \<open>get_available_words_by_pos\<close>\<close>

lemma bucket_word_keys: "map fst (bucket_word w pos d) = map fst d"
  by (auto simp: bucket_word_def Let_def update_keys split: option.splits dest: map_of_SomeD
      simp: map_of_eq_None_iff)

lemma bucket_word_map_of:
  "map_of (bucket_word w pos d) k =
     (if normalize_pos pos = k then map_option (\<lambda>ws. ws @ [w]) (map_of d k) else map_of d k)"
  by (auto simp: bucket_word_def Let_def update_conv' split: option.splits)

lemma inner_keys: "map fst (fold (bucket_word w) ps d) = map fst d"
  by (induction ps arbitrary: d) (simp_all add: bucket_word_keys)

lemma inner_adverb: "map_of (fold (bucket_word w) ps d) ''adverb'' = map_of d ''adverb''"
  by (induction ps arbitrary: d) (simp_all add: bucket_word_map_of normalize_pos_not_adverb)

lemma inner_within:
  "w \<in> S \<Longrightarrow> \<forall>k ws. map_of d k = Some ws \<longrightarrow> set ws \<subseteq> S
     \<Longrightarrow> map_of (fold (bucket_word w) ps d) k = Some ws \<Longrightarrow> set ws \<subseteq> S"
proof (induction ps arbitrary: d)
  case Nil
  then show ?case by simp
next
  case (Cons p ps)
  have "\<forall>k ws. map_of (bucket_word w p d) k = Some ws \<longrightarrow> set ws \<subseteq> S"
    using Cons.prems(1,2) by (fastforce simp: bucket_word_map_of split: if_splits)
  with Cons.IH [of "bucket_word w p d"] Cons.prems(1,3) show ?case by simp
qed

lemma outer_keys:
  "map fst (fold (\<lambda>word pos_dict. if item_id word \<notin> sv then pos_dict
        else fold (bucket_word word) (parts_of_speech word) pos_dict) vs d) = map fst d"
  by (induction vs arbitrary: d) (simp_all add: inner_keys)

lemma outer_adverb:
  "map_of (fold (\<lambda>word pos_dict. if item_id word \<notin> sv then pos_dict
        else fold (bucket_word word) (parts_of_speech word) pos_dict) vs d) ''adverb''
   = map_of d ''adverb''"
  by (induction vs arbitrary: d) (simp_all add: inner_adverb)

lemma outer_within:
  "set vs \<subseteq> V \<Longrightarrow> \<forall>k ws. map_of d k = Some ws \<longrightarrow> set ws \<subseteq> {w \<in> V. item_id w \<in> sv}
   \<Longrightarrow> map_of (fold (\<lambda>word pos_dict. if item_id word \<notin> sv then pos_dict
        else fold (bucket_word word) (parts_of_speech word) pos_dict) vs d) k = Some ws
   \<Longrightarrow> set ws \<subseteq> {w \<in> V. item_id w \<in> sv}"
proof (induction vs arbitrary: d)
  case Nil
  then show ?case by simp
next
  case (Cons v vs)
  let ?d' = "if item_id v \<notin> sv then d else fold (bucket_word v) (parts_of_speech v) d"
  have "\<forall>k ws. map_of ?d' k = Some ws \<longrightarrow> set ws \<subseteq> {w \<in> V. item_id w \<in> sv}"
  proof (cases "item_id v \<in> sv")
    case True
    then have "v \<in> {w \<in> V. item_id w \<in> sv}" using Cons.prems(1) by simp
    from inner_within [OF this Cons.prems(2)] True show ?thesis by simp
  next
    case False
    then show ?thesis using Cons.prems(2) by simp
  qed
  with Cons.IH [of ?d'] Cons.prems(1,3) show ?case by simp
qed

lemma outer_skips:
  "\<forall>w \<in> set vs. item_id w \<notin> sv \<Longrightarrow>
   fold (\<lambda>word pos_dict. if item_id word \<notin> sv then pos_dict
        else fold (bucket_word word) (parts_of_speech word) pos_dict) vs d = d"
  by (induction vs arbitrary: d) simp_all

lemma available_keys:
  "map fst (get_available_words_by_pos self) =
     [''verb'', ''noun'', ''adjective'', ''adverb'', ''expression'']"
  by (simp add: get_available_words_by_pos_def outer_keys pos_dict_init_def)

lemma available_adverb: "map_of (get_available_words_by_pos self) ''adverb'' = Some []"
  by (simp add: get_available_words_by_pos_def outer_adverb pos_dict_init_def)

lemma available_within:
  assumes "map_of (get_available_words_by_pos self) k = Some ws"
  shows "set ws \<subseteq> {w \<in> set (vocabulary (knowledge self)). item_id w \<in> started_vocab self}"
proof -
  have "\<forall>k ws. map_of pos_dict_init k = Some ws \<longrightarrow>
          set ws \<subseteq> {w \<in> set (vocabulary (knowledge self)). item_id w \<in> started_vocab self}"
    by (auto simp: pos_dict_init_def split: if_splits)
  from outer_within [OF subset_refl this] assms show ?thesis
    by (simp add: get_available_words_by_pos_def)
qed

lemma available_nothing_started:
  "started_vocab self = {} \<Longrightarrow> get_available_words_by_pos self = pos_dict_init"
  unfolding get_available_words_by_pos_def by (rule outer_skips) simp

lemma getitem_available:
  assumes "k \<in> set [''verb'', ''noun'', ''adjective'', ''adverb'', ''expression'']"
  shows "\<exists>ws. getitem (get_available_words_by_pos self) k = Inr ws"
proof -
  from assms have "k \<in> fst ` set (get_available_words_by_pos self)"
    using available_keys [of self] by (metis set_map)
  then obtain ws where "map_of (get_available_words_by_pos self) k = Some ws"
    by (metis map_of_eq_None_iff not_Some_eq)
  then show ?thesis by (simp add: getitem_def)
qed

subsection \<open>The constructor\<close>

lemma initialize_started_vocab_eq:
  "initialize_started_vocab vs acc = Inr s \<Longrightarrow>
     s = acc \<union> item_id ` {v \<in> set vs. has_started_at v}"
proof (induction vs arbitrary: acc)
  case Nil
  then show ?case by simp
next
  case (Cons v vs)
  from Cons.prems obtain d where d: "user_specific_data v = Some d"
    and r: "initialize_started_vocab vs
              (if truthy (dict_get d ''started_at'') then insert (item_id v) acc else acc) = Inr s"
    by (auto split: option.splits)
  from Cons.IH [OF r] d show ?case by (auto simp: has_started_at_def)
qed

lemma init_fields:
  assumes "init_SentenceBuilder k lvl api_key env_key = Inr self"
  shows "knowledge self = k" "grammar_level self = lvl"
    "started_vocab self = item_id ` {v \<in> set (vocabulary k). has_started_at v}"
    "openai_api_key self = py_or api_key env_key"
  using assms initialize_started_vocab_eq [of "vocabulary k" "{}"]
  by (auto simp: init_SentenceBuilder_def split: sum.splits)

subsection \<open>The merged grammar table\<close>

lemma merge_beginner:
  "fold merge_level [''beginner'', ''beginner''] [] =
     [(''particles'', beginner_particles), (''verb_endings'', beginner_verb_endings)]"
  by (simp add: merge_level_def GRAMMAR_ELEMENTS_def merge_category_def dict_update_def
      beginner_particles_def beginner_verb_endings_def)

lemma merge_intermediate:
  "fold merge_level [''beginner'', ''intermediate''] [] =
     [(''particles'', beginner_particles @ intermediate_particles),
      (''verb_endings'', beginner_verb_endings @ intermediate_verb_endings)]"
  by (simp add: merge_level_def GRAMMAR_ELEMENTS_def merge_category_def dict_update_def
      beginner_particles_def beginner_verb_endings_def intermediate_particles_def
      intermediate_verb_endings_def)

lemma merge_unknown:
  "lvl \<noteq> ''beginner'' \<Longrightarrow> lvl \<noteq> ''intermediate'' \<Longrightarrow>
     fold merge_level [''beginner'', lvl] [] =
       [(''particles'', beginner_particles), (''verb_endings'', beginner_verb_endings)]"
  by (simp add: merge_level_def GRAMMAR_ELEMENTS_def merge_category_def dict_update_def
      beginner_particles_def beginner_verb_endings_def)

lemma grammar_cases:
  "get_grammar_elements self =
     (if grammar_level self = ''intermediate''
      then [(''particles'', beginner_particles @ intermediate_particles),
            (''verb_endings'', beginner_verb_endings @ intermediate_verb_endings)]
      else [(''particles'', beginner_particles), (''verb_endings'', beginner_verb_endings)])"
proof -
  consider "grammar_level self = ''beginner''" | "grammar_level self = ''intermediate''"
    | "grammar_level self \<noteq> ''beginner''" "grammar_level self \<noteq> ''intermediate''" by blast
  then show ?thesis
  proof cases
    case 1
    then show ?thesis unfolding get_grammar_elements_def by (simp only: merge_beginner) simp
  next
    case 2
    then show ?thesis unfolding get_grammar_elements_def by (simp only: merge_intermediate) simp
  next
    case 3
    then show ?thesis
      unfolding get_grammar_elements_def using merge_unknown [of "grammar_level self"] by simp
  qed
qed

lemma particle_wa:
  "getitem (case map_of (get_grammar_elements self) ''particles'' of None \<Rightarrow> [] | Some p \<Rightarrow> p) kana_ha
     = Inr (element kana_ha ''wa'' ''topic marker'')"
  by (simp add: grammar_cases getitem_def beginner_particles_def)

lemma particle_wo:
  "getitem (case map_of (get_grammar_elements self) ''particles'' of None \<Rightarrow> [] | Some p \<Rightarrow> p) kana_wo
     = Inr (element kana_wo ''o'' ''object marker'')"
  by (simp add: grammar_cases getitem_def beginner_particles_def)

text \<open>\<open>d.update(items)\<close>: the items win over \<open>d\<close>, and a later item over an earlier one.\<close>

lemma map_of_dict_update: "map_of (dict_update d items) = map_of d ++ map_of (rev items)"
proof (induction items arbitrary: d)
  case Nil
  then show ?case by (simp add: dict_update_def)
next
  case (Cons kv items)
  obtain k v where kv: "kv = (k, v)" by (cases kv)
  have "dict_update d (kv # items) = dict_update (AList.update k v d) items"
    by (simp add: dict_update_def kv)
  then have "map_of (dict_update d (kv # items)) = (map_of d)(k \<mapsto> v) ++ map_of (rev items)"
    by (simp only: Cons.IH update_conv')
  also have "\<dots> = map_of d ++ map_of (rev (kv # items))"
    by (rule ext) (simp add: kv map_add_def split: option.splits)
  finally show ?case .
qed

lemma grammar_tiers:
  "grammar_tier ''beginner'' =
     [(''particles'', beginner_particles), (''verb_endings'', beginner_verb_endings)]"
  "grammar_tier ''intermediate'' =
     [(''particles'', intermediate_particles), (''verb_endings'', intermediate_verb_endings)]"
  by (simp_all add: grammar_tier_def GRAMMAR_ELEMENTS_def get_or_def)

lemma intermediate_entry:
  assumes "grammar_level self = ''intermediate''"
  shows "grammar_entry (get_grammar_elements self) category key =
           (case grammar_entry (grammar_tier ''intermediate'') category key of
              Some e \<Rightarrow> Some e
            | None \<Rightarrow> grammar_entry (grammar_tier ''beginner'') category key)"
proof -
  have p: "map_of (beginner_particles @ intermediate_particles) key =
             (case map_of intermediate_particles key of
                Some e \<Rightarrow> Some e | None \<Rightarrow> map_of beginner_particles key)"
    by (simp add: beginner_particles_def intermediate_particles_def)
  have v: "map_of (beginner_verb_endings @ intermediate_verb_endings) key =
             (case map_of intermediate_verb_endings key of
                Some e \<Rightarrow> Some e | None \<Rightarrow> map_of beginner_verb_endings key)"
    by (simp add: beginner_verb_endings_def intermediate_verb_endings_def)
  show ?thesis
    using p v
    by (auto simp: grammar_cases assms grammar_tiers grammar_entry_def split: option.splits)
qed

subsection \<open>The template sentence\<close>

lemma bind_err_Inr [simp]: "bind_err (Inr v) f = f v"
  by (simp add: bind_err_def)

lemma bind_err_Inl [simp]: "bind_err (Inl e) f = Inl e"
  by (simp add: bind_err_def)

lemma bind_err_eq_Inr: "bind_err m f = Inr y \<longleftrightarrow> (\<exists>v. m = Inr v \<and> f v = Inr y)"
  by (cases m) simp_all

lemma choice_mem: "choice r xs = Inr x \<Longrightarrow> x \<in> set xs"
  by (auto simp: choice_def split: if_splits)

lemma choice_Nil: "choice r [] = Inl IndexError"
  by (simp add: choice_def)

lemma choice_total: "xs \<noteq> [] \<Longrightarrow> \<exists>x. choice r xs = Inr x"
  by (simp add: choice_def)

lemma join_characters:
  "str_join [slot_characters (Item s), slot_characters (Dict (element kana_ha ''wa'' ''topic marker'')),
       slot_characters (Item ob), slot_characters (Dict (element kana_wo ''o'' ''object marker'')),
       slot_characters (Item v)]
   = Inr (characters s @ kana_ha @ characters ob @ kana_wo @ characters v)"
  by (simp add: str_join_def slot_characters_def getitem_def)

lemma join_reading:
  "str_join [slot_reading (Item s), slot_reading (Dict (element kana_ha ''wa'' ''topic marker'')),
       slot_reading (Item ob), slot_reading (Dict (element kana_wo ''o'' ''object marker'')),
       slot_reading (Item v)]
   = (case (primary_reading s, primary_reading ob, primary_reading v) of
        (Some rs, Some ro, Some rv) \<Rightarrow> Inr (rs @ ''wa'' @ ro @ ''o'' @ rv)
      | _ \<Rightarrow> Inl TypeError)"
  by (simp add: str_join_def slot_reading_def getitem_def split: option.splits)

text \<open>\<open>build_basic_sentence\<close> once the two buckets and the two particles are looked up.\<close>

lemma build_unfold:
  assumes "getitem (get_available_words_by_pos self) ''noun'' = Inr nouns"
    and "getitem (get_available_words_by_pos self) ''verb'' = Inr verbs"
  shows "build_basic_sentence self r1 r2 r3 =
     (if nouns = [] \<or> verbs = [] then Inr None
      else bind_err (choice r1 nouns) (\<lambda>subject.
           bind_err (choice r2 (filter (\<lambda>n. n \<noteq> subject) nouns)) (\<lambda>object.
           bind_err (choice r3 verbs) (\<lambda>verb.
           bind_err (str_join [slot_reading (Item subject),
                               slot_reading (Dict (element kana_ha ''wa'' ''topic marker'')),
                               slot_reading (Item object),
                               slot_reading (Dict (element kana_wo ''o'' ''object marker'')),
                               slot_reading (Item verb)]) (\<lambda>rd.
           Inr (Some (characters subject @ kana_ha @ characters object @ kana_wo @ characters verb, rd,
                      [Item subject, Dict (element kana_ha ''wa'' ''topic marker''), Item object,
                       Dict (element kana_wo ''o'' ''object marker''), Item verb])))))))"
  unfolding build_basic_sentence_def Let_def assms particle_wa particle_wo
  by (simp add: join_characters)

text \<open>No noun or no verb: the result is \<open>None\<close>.\<close>

lemma build_too_few:
  assumes "getitem (get_available_words_by_pos self) ''noun'' = Inr nouns"
    and "getitem (get_available_words_by_pos self) ''verb'' = Inr verbs"
    and "nouns = [] \<or> verbs = []"
  shows "build_basic_sentence self r1 r2 r3 = Inr None"
  using assms(3) by (simp add: build_unfold [OF assms(1,2)])

text \<open>
  Nouns that are all equal (one noun, in particular) and a verb: whatever the draws, the
  list of the other nouns is empty and \<open>random.choice\<close> raises IndexError.
\<close>

lemma build_single_noun:
  assumes "getitem (get_available_words_by_pos self) ''noun'' = Inr nouns"
    and "getitem (get_available_words_by_pos self) ''verb'' = Inr verbs"
    and "nouns \<noteq> []" "verbs \<noteq> []" "\<forall>n \<in> set nouns. \<forall>m \<in> set nouns. n = m"
  shows "build_basic_sentence self r1 r2 r3 = Inl IndexError"
proof -
  obtain subject where s: "choice r1 nouns = Inr subject"
    using choice_total [OF assms(3)] by blast
  then have "subject \<in> set nouns" by (rule choice_mem)
  with assms(5) have "filter (\<lambda>n. n \<noteq> subject) nouns = []"
    by (auto simp: filter_empty_conv)
  then show ?thesis
    using assms(3,4) s by (simp add: build_unfold [OF assms(1,2)] choice_Nil)
qed

text \<open>
  Two different nouns, a verb, and a primary reading on every candidate: whatever the
  draws, a sentence is returned.
\<close>

lemma build_returns:
  assumes n: "getitem (get_available_words_by_pos self) ''noun'' = Inr nouns"
    and v: "getitem (get_available_words_by_pos self) ''verb'' = Inr verbs"
    and "verbs \<noteq> []" and two: "a \<in> set nouns" "b \<in> set nouns" "a \<noteq> b"
    and rd: "\<forall>w \<in> set nouns \<union> set verbs. primary_reading w \<noteq> None"
  shows "\<exists>result. build_basic_sentence self r1 r2 r3 = Inr (Some result)"
proof -
  from two have ne: "nouns \<noteq> []" by auto
  then obtain subject where s: "choice r1 nouns = Inr subject" using choice_total by blast
  have "\<exists>x \<in> set nouns. x \<noteq> subject"
    using two by (cases "a = subject") auto
  then have "filter (\<lambda>n. n \<noteq> subject) nouns \<noteq> []"
    by (simp add: filter_empty_conv)
  then obtain object where ob: "choice r2 (filter (\<lambda>n. n \<noteq> subject) nouns) = Inr object"
    using choice_total by blast
  obtain verb where vb: "choice r3 verbs = Inr verb" using choice_total [OF assms(3)] by blast
  from choice_mem [OF s] choice_mem [OF ob] choice_mem [OF vb] rd
  obtain rs ro rv where "primary_reading subject = Some rs" "primary_reading object = Some ro"
    "primary_reading verb = Some rv" by (metis UnCI filter_is_subset option.exhaust subsetD)
  then show ?thesis
    using ne assms(3) s ob vb by (simp add: build_unfold [OF n v] join_reading)
qed

subsection \<open>The knowledge aggregator\<close>

lemma assignment_lookup_loop_dom:
  "assignment_lookup_loop as acc = Inr m \<Longrightarrow>
     dom m = dom acc \<union> subject_id ` {a \<in> set as. started_at a \<noteq> None}"
proof (induction as arbitrary: acc)
  case Nil
  then show ?case by simp
next
  case (Cons a as)
  show ?case
  proof (cases "started_at a")
    case None
    with Cons.prems have "assignment_lookup_loop as acc = Inr m" by simp
    from Cons.IH [OF this] None show ?thesis by auto
  next
    case (Some t)
    with Cons.prems obtain stage where st: "srs_stage_a a = Some stage"
      and r: "assignment_lookup_loop as (acc(subject_id a \<mapsto> stage)) = Inr m"
      by (auto split: option.splits)
    from Cons.IH [OF r] Some show ?thesis by (auto split: if_splits)
  qed
qed

lemma assignment_lookup_dom:
  "assignment_lookup as = Inr m \<Longrightarrow> dom m = subject_id ` {a \<in> set as. started_at a \<noteq> None}"
  unfolding assignment_lookup_def by (drule assignment_lookup_loop_dom) simp

lemma started_vocab_loop_dom:
  "dom (started_vocab_loop as acc) =
     dom acc \<union> subject_id ` {a \<in> set as. started_at a \<noteq> None \<and> subject_type a = ''vocabulary''}"
  by (induction as arbitrary: acc) auto

lemma started_vocab_of_dom:
  "dom (started_vocab_of as) =
     subject_id ` {a \<in> set as. started_at a \<noteq> None \<and> subject_type a = ''vocabulary''}"
  by (simp add: started_vocab_of_def started_vocab_loop_dom)

lemma fetch_vocabulary_ids:
  assumes "w \<in> set (fetch_vocabulary vocab_response as)"
  shows "item_id w \<in> dom (started_vocab_of as)"
proof -
  from assms obtain item where
    "w \<in> set (case started_vocab_of as (id_raw item) of
                 None \<Rightarrow> []
               | Some stage \<Rightarrow>
                   [(convert_to_wanikani_item item (Some stage))
                      \<lparr>user_specific_data := Some [''started_at'' \<mapsto> JStr ''2024-01-01'']\<rparr>])"
    unfolding fetch_vocabulary_def Let_def by auto
  then show ?thesis
    by (cases "started_vocab_of as (id_raw item)")
       (auto simp: convert_to_wanikani_item_def)
qed

lemma build_snapshot_stage:
  assumes "build_snapshot lvl as vocab_data kanji_data = Inr k"
    and "w \<in> set (vocabulary k) \<union> set (kanji k)"
  shows "\<exists>m. assignment_lookup as = Inr m \<and> srs_stage w = m (item_id w)"
  using assms
  by (auto simp: build_snapshot_def bind_err_eq_Inr convert_to_wanikani_item_def)

text \<open>A subject record without \<open>user_specific_data\<close> is given the empty dictionary.\<close>

lemma convert_unstarted:
  "user_specific_data_raw raw = None \<Longrightarrow> \<not> has_started_at (convert_to_wanikani_item raw stage)"
  by (simp add: convert_to_wanikani_item_def has_started_at_def get_or_def dict_get_def)

subsection \<open>The cache\<close>

text \<open>
  With a rounding that is monotone and leaves the maximum and its seconds unchanged, an age
  of at most the maximum does not exceed it.
\<close>

lemma age_within:
  assumes mono: "\<And>x y. x \<le> y \<Longrightarrow> fl x \<le> fl y"
    and exact: "fl (real_of_int max_age_hours * 3600) = real_of_int max_age_hours * 3600"
      "fl (real_of_int max_age_hours) = real_of_int max_age_hours"
    and le: "age \<le> max_age_hours * 3600000000"
  shows "\<not> age_exceeds fl age max_age_hours"
proof -
  from le have "real_of_int age \<le> real_of_int (max_age_hours * 3600000000)"
    by (rule of_int_le_iff [THEN iffD2])
  then have "real_of_int age / 1000000 \<le> real_of_int max_age_hours * 3600" by simp
  from mono [OF this] exact(1)
  have "fl (real_of_int age / 1000000) / 3600 \<le> real_of_int max_age_hours" by simp
  from mono [OF this] exact(2) show ?thesis by (simp add: age_exceeds_def)
qed

lemma load_saved:
  assumes "\<forall>t. fromisoformat (isoformat t) = Some (Naive t)"
    and "\<not> age_exceeds fl (int later - int now) max_age_hours"
  shows "load_cache fromisoformat fl later (save_cache isoformat now files data filename) filename
           max_age_hours = Inr (Some data)"
  using assms
  by (simp add: load_cache_def read_cache_def save_cache_def subscript_def getitem_def
      parse_timestamp_def subtract_from_now_def)

lemma load_missing:
  "files (cache_path filename) = None \<Longrightarrow>
     load_cache fromisoformat fl later files filename max_age_hours = Inr None"
  by (simp add: load_cache_def read_cache_def)

lemma load_not_json:
  "files (cache_path filename) = Some NotJson \<Longrightarrow>
     load_cache fromisoformat fl later files filename max_age_hours = Inr None"
  by (simp add: load_cache_def read_cache_def)

lemma load_no_timestamp:
  "files (cache_path filename) = Some (Document (JObj kvs)) \<Longrightarrow>
     map_of kvs ''timestamp'' = None \<Longrightarrow>
     load_cache fromisoformat fl later files filename max_age_hours = Inr None"
  by (simp add: load_cache_def read_cache_def subscript_def getitem_def)

lemma load_no_data:
  "files (cache_path filename) = Some (Document (JObj kvs)) \<Longrightarrow>
     map_of kvs ''timestamp'' = Some (JStr s) \<Longrightarrow> fromisoformat s = Some (Naive t) \<Longrightarrow>
     map_of kvs ''data'' = None \<Longrightarrow>
     load_cache fromisoformat fl later files filename max_age_hours = Inr None"
  by (simp add: load_cache_def read_cache_def subscript_def getitem_def parse_timestamp_def
      subtract_from_now_def)

lemma load_stale:
  "files (cache_path filename) = Some (Document (JObj kvs)) \<Longrightarrow>
     map_of kvs ''timestamp'' = Some (JStr s) \<Longrightarrow> fromisoformat s = Some (Naive t) \<Longrightarrow>
     age_exceeds fl (int later - int t) max_age_hours \<Longrightarrow>
     load_cache fromisoformat fl later files filename max_age_hours = Inr None"
  by (simp add: load_cache_def read_cache_def subscript_def getitem_def parse_timestamp_def
      subtract_from_now_def)

text \<open>A timestamp that is a string and not a date is a ValueError, hence a miss.\<close>

lemma load_bad_timestamp:
  "files (cache_path filename) = Some (Document (JObj kvs)) \<Longrightarrow>
     map_of kvs ''timestamp'' = Some (JStr s) \<Longrightarrow> fromisoformat s = None \<Longrightarrow>
     load_cache fromisoformat fl later files filename max_age_hours = Inr None"
  by (simp add: load_cache_def read_cache_def subscript_def getitem_def parse_timestamp_def)

text \<open>
  TypeError is not among the three exceptions caught. It leaves \<open>load_cache\<close> when the
  document is no dictionary, when the timestamp is no string, and when the timestamp
  carries a UTC offset, whatever else the file holds.
\<close>

lemma load_not_a_dictionary:
  "files (cache_path filename) = Some (Document doc) \<Longrightarrow> \<forall>kvs. doc \<noteq> JObj kvs \<Longrightarrow>
     load_cache fromisoformat fl later files filename max_age_hours = Inl TypeError"
  by (cases doc) (simp_all add: load_cache_def read_cache_def subscript_def)

lemma load_timestamp_not_a_string:
  "files (cache_path filename) = Some (Document (JObj kvs)) \<Longrightarrow>
     map_of kvs ''timestamp'' = Some v \<Longrightarrow> \<forall>s. v \<noteq> JStr s \<Longrightarrow>
     load_cache fromisoformat fl later files filename max_age_hours = Inl TypeError"
  by (cases v)
     (simp_all add: load_cache_def read_cache_def subscript_def getitem_def parse_timestamp_def)

lemma load_offset_aware:
  "files (cache_path filename) = Some (Document (JObj kvs)) \<Longrightarrow>
     map_of kvs ''timestamp'' = Some (JStr s) \<Longrightarrow> fromisoformat s = Some (Aware t) \<Longrightarrow>
     load_cache fromisoformat fl later files filename max_age_hours = Inl TypeError"
  by (simp add: load_cache_def read_cache_def subscript_def getitem_def parse_timestamp_def
      subtract_from_now_def)

subsection \<open>The prompt and the generation\<close>

lemma element_line_element:
  "element_line (element c r m) = Inr (''- '' @ c @ '' ('' @ r @ '') - '' @ m @ nl)"
  by (simp add: element_line_def getitem_def)

lemma blocks_beginner:
  "\<exists>blocks. collect (map category_block
      [(''particles'', beginner_particles), (''verb_endings'', beginner_verb_endings)]) = Inr blocks"
  by (simp add: category_block_def beginner_particles_def beginner_verb_endings_def
      element_line_element)

lemma blocks_intermediate:
  "\<exists>blocks. collect (map category_block
      [(''particles'', beginner_particles @ intermediate_particles),
       (''verb_endings'', beginner_verb_endings @ intermediate_verb_endings)]) = Inr blocks"
  by (simp add: category_block_def beginner_particles_def beginner_verb_endings_def
      intermediate_particles_def intermediate_verb_endings_def element_line_element)

text \<open>The prompt is always built: none of its lookups can fail on the literal tables.\<close>

lemma prompt_total: "\<exists>p. get_vocabulary_prompt self = Inr p"
proof -
  have "\<exists>blocks. collect (map category_block (get_grammar_elements self)) = Inr blocks"
    using blocks_beginner blocks_intermediate by (simp add: grammar_cases)
  then show ?thesis by (auto simp: get_vocabulary_prompt_def Let_def)
qed

lemma generate_no_key:
  "\<not> str_truthy (openai_api_key self) \<Longrightarrow>
     generate_sentence_with_gpt json_loads llm self n = Inl ValueError"
  by (simp add: generate_sentence_with_gpt_def)

lemma generate_unfold:
  assumes "str_truthy (openai_api_key self)" and "get_vocabulary_prompt self = Inr p"
  shows "generate_sentence_with_gpt json_loads llm self n =
     (case llm (p @ format_request n) of
        RequestFailed \<Rightarrow> Inr (JList [])
      | Content reply \<Rightarrow>
          (case json_loads reply of
             None \<Rightarrow> Inr (JList [])
           | Some result \<Rightarrow>
               (case subscript result ''sentences'' of
                  Inl e \<Rightarrow> Inr (JList []) | Inr sentences \<Rightarrow> Inr sentences)))"
  using assms
  by (simp add: generate_sentence_with_gpt_def request_sentences_def
      split: llm_reply.splits option.splits)

lemma generate_returns:
  assumes "str_truthy (openai_api_key self)"
  shows "\<exists>v. generate_sentence_with_gpt json_loads llm self n = Inr v"
proof -
  obtain p where p: "get_vocabulary_prompt self = Inr p" using prompt_total by blast
  show ?thesis
    unfolding generate_unfold [OF assms p]
    by (auto split: llm_reply.splits option.splits sum.splits)
qed

lemma no_sentences:
  "(\<forall>kvs. result = JObj kvs \<longrightarrow> map_of kvs ''sentences'' = None) \<Longrightarrow>
     \<exists>e. subscript result ''sentences'' = Inl e"
  by (cases result) (simp_all add: subscript_def getitem_def)

subsection \<open>The sample data\<close>

lemma sample_fields:
  "item_id ishi = 1" "item_id tani = 2" "item_id kesu = 3" "item_id kani = 4"
  "parts_of_speech ishi = [''noun'']" "parts_of_speech tani = [''noun'']"
  "parts_of_speech kesu = [''godan verb'']" "parts_of_speech kani = [''noun'']"
  "user_specific_data ishi = Some started_data" "user_specific_data tani = Some started_data"
  "user_specific_data kesu = Some started_data" "user_specific_data kani = Some Map.empty"
  "characters ishi = kana_i @ kana_shi" "characters tani = kana_ta @ kana_ni"
  "characters kesu = kana_ke @ kana_su" "characters kani = kana_ka @ kana_ni"
  "primary_reading ishi = Some (kana_i @ kana_shi)" "primary_reading tani = Some (kana_ta @ kana_ni)"
  "primary_reading kesu = Some (kana_ke @ kana_su)" "primary_reading kani = Some (kana_ka @ kana_ni)"
  "srs_stage kani = Some 5"
  by (simp_all add: ishi_def tani_def kesu_def kani_def sample_item_def primary_reading_def)

lemma more_sample_fields:
  "item_id mata = 5" "parts_of_speech mata = [''adverb'']"
  "item_id ishi_unstarted = 1" "parts_of_speech ishi_unstarted = [''noun'']"
  "user_specific_data ishi_unstarted = Some Map.empty" "srs_stage ishi_unstarted = Some 5"
  by (simp_all add: mata_def ishi_unstarted_def sample_item_def)


lemma sample_started:
  "truthy (dict_get started_data ''started_at'')" "\<not> truthy (dict_get Map.empty ''started_at'')"
  by (simp_all add: started_data_def dict_get_def)

lemma normalize_samples:
  "normalize_pos ''noun'' = ''noun''" "normalize_pos ''godan verb'' = ''verb''"
  "normalize_pos ''adverb'' = ''verb''"
  by (simp_all add: normalize_pos_def str_in_def sublist_Cons_right)

lemma builder_fields:
  "vocabulary (knowledge (sample_builder vocab started lvl)) = vocab"
  "started_vocab (sample_builder vocab started lvl) = started"
  "grammar_level (sample_builder vocab started lvl) = lvl"
  "openai_api_key (sample_builder vocab started lvl) = None"
  "openai_api_key keyed_builder = Some ''sk-sample''"
  "vocabulary (sample_knowledge vocab) = vocab"
  by (simp_all add: sample_builder_def sample_knowledge_def keyed_builder_def)

lemma record_fields:
  "subject_id pending_record = 1" "started_at pending_record = None"
  "srs_stage_a pending_record = Some 3" "subject_type pending_record = ''vocabulary''"
  "subject_id (started_record s) = s" "started_at (started_record s) \<noteq> None"
  "srs_stage_a (started_record s) = Some 5" "subject_type (started_record s) = ''vocabulary''"
  "id_raw (raw_subject i chars) = i"
  by (simp_all add: pending_record_def started_record_def raw_subject_def)

lemma untally_tally: "untally (tally t) = Some (Naive t)"
  by (simp add: untally_def tally_def)

lemma init_sample:
  "init_SentenceBuilder (sample_knowledge [ishi, tani, kesu, kani]) ''beginner'' None None
     = Inr (sample_builder [ishi, tani, kesu, kani] {1, 2, 3} ''beginner'')"
  by (simp add: init_SentenceBuilder_def sample_builder_def sample_knowledge_def sample_fields
      sample_started py_or_def str_truthy_def insert_commute)

lemma available_sample:
  "get_available_words_by_pos (sample_builder [ishi, tani, kesu, kani] {1, 2, 3} ''beginner'')
     = [(''verb'', [kesu]), (''noun'', [ishi, tani]), (''adjective'', []), (''adverb'', []),
        (''expression'', [])]"
  by (simp add: get_available_words_by_pos_def builder_fields pos_dict_init_def bucket_word_def
      Let_def normalize_samples sample_fields)


lemma init_one_noun:
  "init_SentenceBuilder (sample_knowledge [ishi, kesu]) ''beginner'' None None
     = Inr (sample_builder [ishi, kesu] {1, 3} ''beginner'')"
  by (simp add: init_SentenceBuilder_def sample_builder_def sample_knowledge_def sample_fields
      sample_started py_or_def str_truthy_def insert_commute)

lemma available_one_noun:
  "get_available_words_by_pos (sample_builder [ishi, kesu] {1, 3} ''beginner'')
     = [(''verb'', [kesu]), (''noun'', [ishi]), (''adjective'', []), (''adverb'', []),
        (''expression'', [])]"
  by (simp add: get_available_words_by_pos_def builder_fields pos_dict_init_def bucket_word_def
      Let_def normalize_samples sample_fields)

lemma build_one_noun:
  "build_basic_sentence (sample_builder [ishi, kesu] {1, 3} ''beginner'') r1 r2 r3 = Inl IndexError"
  by (rule build_single_noun [where nouns = "[ishi]" and verbs = "[kesu]"])
     (simp_all add: available_one_noun getitem_def)

section \<open>The claims\<close>

text \<open>
  C1. \<open>build_basic_sentence\<close> is to return \<open>None\<close> whenever fewer than two nouns or no verb
  are available, and in particular with exactly one noun and a verb. On the snapshot of the
  started noun \<open>ishi\<close> and the started verb \<open>kesu\<close> the guard \<open>not available_words["noun"]
  or not available_words["verb"]\<close> lets the call through, the list of the nouns other than
  the subject is empty, and \<open>random.choice\<close> raises IndexError whatever the three draws are.
\<close>

theorem build_basic_sentence_one_noun:
  "init_SentenceBuilder (sample_knowledge [ishi, kesu]) ''beginner'' None None
     = Inr (sample_builder [ishi, kesu] {1, 3} ''beginner'') \<and>
   getitem (get_available_words_by_pos (sample_builder [ishi, kesu] {1, 3} ''beginner'')) ''noun''
     = Inr [ishi] \<and>
   getitem (get_available_words_by_pos (sample_builder [ishi, kesu] {1, 3} ''beginner'')) ''verb''
     = Inr [kesu] \<and>
   build_basic_sentence (sample_builder [ishi, kesu] {1, 3} ''beginner'') r1 r2 r3 = Inl IndexError"
  by (simp add: init_one_noun build_one_noun available_one_noun getitem_def)

text \<open>
  C2, as amended. A subject none of whose assignment records carries a started timestamp is
  not in the started mapping, whatever SRS stages those records carry: \<open>assignment_lookup\<close>
  has no entry for it, \<open>get_user_knowledge\<close> gives its items no SRS stage, the
  \<open>started_vocab\<close> of \<open>fetch_vocabulary\<close> has no entry for it and \<open>fetch_vocabulary\<close>
  returns no item of it.
\<close>

theorem unstarted_subject_not_in_mapping:
  assumes "\<forall>a \<in> set assignments. subject_id a = s \<longrightarrow> started_at a = None"
  shows "(\<forall>m. assignment_lookup assignments = Inr m \<longrightarrow> m s = None) \<and>
         (\<forall>k. build_snapshot lvl assignments vocab_data kanji_data = Inr k \<longrightarrow>
            (\<forall>w \<in> set (vocabulary k) \<union> set (kanji k). item_id w = s \<longrightarrow> srs_stage w = None)) \<and>
         started_vocab_of assignments s = None \<and>
         (\<forall>w \<in> set (fetch_vocabulary vocab_response assignments). item_id w \<noteq> s)"
proof -
  have a: "m s = None" if "assignment_lookup assignments = Inr m" for m
  proof -
    from assignment_lookup_dom [OF that] assms have "s \<notin> dom m" by auto
    then show ?thesis by auto
  qed
  have b: "srs_stage w = None"
    if "build_snapshot lvl assignments vocab_data kanji_data = Inr k"
      "w \<in> set (vocabulary k) \<union> set (kanji k)" "item_id w = s" for k w
    using build_snapshot_stage [OF that(1,2)] a that(3) by auto
  have "s \<notin> dom (started_vocab_of assignments)"
    unfolding started_vocab_of_dom using assms by auto
  then have c: "started_vocab_of assignments s = None" by auto
  have d: "item_id w \<noteq> s" if "w \<in> set (fetch_vocabulary vocab_response assignments)" for w
    using fetch_vocabulary_ids [OF that] c by auto
  from a b c d show ?thesis by blast
qed

text \<open>
  On the records of subject 1 (not started, stage 3) and subject 2 (started, stage 5), only
  subject 2 is in either mapping and in the list of \<open>fetch_vocabulary\<close>.
\<close>

theorem unstarted_subject_not_in_mapping_witness:
  "started_at pending_record = None \<and> srs_stage_a pending_record = Some 3 \<and>
   started_vocab_of [pending_record, started_record 2] 1 = None \<and>
   started_vocab_of [pending_record, started_record 2] 2 = Some 5 \<and>
   map item_id (fetch_vocabulary [raw_subject 1 (kana_i @ kana_shi), raw_subject 2 (kana_ta @ kana_ni)]
      [pending_record, started_record 2]) = [2]"
  using unstarted_subject_not_in_mapping [of "[pending_record, started_record 2]" 1 3
          "[raw_subject 1 (kana_i @ kana_shi), raw_subject 2 (kana_ta @ kana_ni)]" "[]"
          "[raw_subject 1 (kana_i @ kana_shi), raw_subject 2 (kana_ta @ kana_ni)]"]
  by (simp add: record_fields started_vocab_of_def fetch_vocabulary_def get_or_def
      convert_to_wanikani_item_def)

text \<open>
  The claim as stated fails when a subject has two records: the first record of subject 1
  has no started timestamp, the second has one, and subject 1 is in both mappings with an
  SRS stage and in the list of \<open>fetch_vocabulary\<close>.
\<close>

theorem started_mapping_counterexample:
  "started_at pending_record = None \<and> subject_id pending_record = 1 \<and>
   build_snapshot 3 [pending_record, started_record 1] [raw_subject 1 (kana_i @ kana_shi)] []
     = Inr \<lparr>vocabulary = [convert_to_wanikani_item (raw_subject 1 (kana_i @ kana_shi)) (Some 5)],
            kanji = [], level_k = 3\<rparr> \<and>
   started_vocab_of [pending_record, started_record 1] 1 = Some 5 \<and>
   map item_id (fetch_vocabulary [raw_subject 1 (kana_i @ kana_shi)]
      [pending_record, started_record 1]) = [1]"
  by (simp add: record_fields build_snapshot_def assignment_lookup_def started_vocab_of_def
      fetch_vocabulary_def get_or_def convert_to_wanikani_item_def)



text \<open>
  C4, as amended. \<open>_normalize_pos\<close> maps every tag that contains \<open>verb\<close> to \<open>verb\<close>; every
  tag that does not contain \<open>verb\<close> and contains one of the three adjective tags to
  \<open>adjective\<close>; and returns every other tag unchanged.
\<close>

theorem normalize_pos_by_cases:
  "(str_in ''verb'' pos \<longrightarrow> normalize_pos pos = ''verb'') \<and>
   (\<not> str_in ''verb'' pos \<and>
      (str_in (kana_i @ '' adjective'') pos \<or> str_in (kana_na @ '' adjective'') pos
         \<or> str_in (kana_no @ '' adjective'') pos)
      \<longrightarrow> normalize_pos pos = ''adjective'') \<and>
   (\<not> str_in ''verb'' pos \<and> \<not> str_in (kana_i @ '' adjective'') pos
      \<and> \<not> str_in (kana_na @ '' adjective'') pos \<and> \<not> str_in (kana_no @ '' adjective'') pos
      \<longrightarrow> normalize_pos pos = pos)"
  by (simp add: normalize_pos_cases)

theorem normalize_pos_by_cases_witness:
  "normalize_pos ''godan verb'' = ''verb'' \<and> normalize_pos ''ichidan verb'' = ''verb'' \<and>
   normalize_pos (kana_no @ '' adjective'') = ''adjective'' \<and> normalize_pos ''noun'' = ''noun''"
  using normalize_pos_by_cases [of "''godan verb''"] normalize_pos_by_cases [of "''ichidan verb''"]
    normalize_pos_by_cases [of "kana_no @ '' adjective''"] normalize_pos_by_cases [of "''noun''"]
  by (simp add: str_in_def sublist_Cons_right)

text \<open>
  The claim as stated fails on a tag that contains an adjective tag and \<open>verb\<close>: the first
  test wins and the tag is mapped to \<open>verb\<close>.
\<close>

theorem normalize_pos_adjective_counterexample:
  "str_in (kana_i @ '' adjective'') (''adverbial '' @ kana_i @ '' adjective'') \<and>
   normalize_pos (''adverbial '' @ kana_i @ '' adjective'') \<noteq> ''adjective''"
  by (simp add: normalize_pos_def str_in_def sublist_Cons_right)

text \<open>
  C5. For every builder, \<open>get_available_words_by_pos\<close> returns a dictionary with exactly
  the keys verb, noun, adjective, adverb and expression, in that order, each bound to a
  list; every item of every list is an item of the vocabulary whose id is in
  \<open>started_vocab\<close>; with nothing started all five lists are empty; and for a builder made
  by the constructor every item listed has the id of a vocabulary item with a truthy
  \<open>started_at\<close>.
\<close>

theorem available_words_five_keys:
  "map fst (get_available_words_by_pos self) =
     [''verb'', ''noun'', ''adjective'', ''adverb'', ''expression''] \<and>
   (\<forall>pos \<in> set [''verb'', ''noun'', ''adjective'', ''adverb'', ''expression''].
      \<exists>ws. map_of (get_available_words_by_pos self) pos = Some ws) \<and>
   (\<forall>pos ws. map_of (get_available_words_by_pos self) pos = Some ws \<longrightarrow>
      (\<forall>w \<in> set ws. w \<in> set (vocabulary (knowledge self)) \<and> item_id w \<in> started_vocab self)) \<and>
   (started_vocab self = {} \<longrightarrow> get_available_words_by_pos self = pos_dict_init) \<and>
   (\<forall>k lvl api_key env_key. init_SentenceBuilder k lvl api_key env_key = Inr self \<longrightarrow>
      (\<forall>pos ws. map_of (get_available_words_by_pos self) pos = Some ws \<longrightarrow>
         (\<forall>w \<in> set ws. \<exists>v \<in> set (vocabulary k). item_id v = item_id w \<and> has_started_at v)))"
proof -
  have a: "\<exists>ws. map_of (get_available_words_by_pos self) pos = Some ws"
    if "pos \<in> set [''verb'', ''noun'', ''adjective'', ''adverb'', ''expression'']" for pos
    using getitem_available [OF that, of self] by (auto simp: getitem_def split: option.splits)
  have b: "w \<in> set (vocabulary (knowledge self)) \<and> item_id w \<in> started_vocab self"
    if "map_of (get_available_words_by_pos self) pos = Some ws" "w \<in> set ws" for pos ws w
    using available_within [OF that(1)] that(2) by auto
  have c: "\<exists>v \<in> set (vocabulary k). item_id v = item_id w \<and> has_started_at v"
    if "init_SentenceBuilder k lvl api_key env_key = Inr self"
      "map_of (get_available_words_by_pos self) pos = Some ws" "w \<in> set ws"
    for k lvl api_key env_key pos ws w
    using b [OF that(2,3)] init_fields(3) [OF that(1)] by auto
  from a b c available_keys [of self] available_nothing_started [of self] show ?thesis by blast
qed

theorem available_words_five_keys_witness:
  "get_available_words_by_pos (sample_builder [ishi, tani, kesu, kani] {1, 2, 3} ''beginner'') =
     [(''verb'', [kesu]), (''noun'', [ishi, tani]), (''adjective'', []), (''adverb'', []),
      (''expression'', [])] \<and>
   get_available_words_by_pos (sample_builder [kani] {} ''beginner'') =
     [(''verb'', []), (''noun'', []), (''adjective'', []), (''adverb'', []), (''expression'', [])]"
proof -
  have "get_available_words_by_pos (sample_builder [kani] {} ''beginner'') = pos_dict_init"
    using available_words_five_keys [of "sample_builder [kani] {} ''beginner''"]
    by (simp add: builder_fields)
  then show ?thesis
    using available_words_five_keys [of "sample_builder [ishi, tani, kesu, kani] {1, 2, 3} ''beginner''"]
    by (simp add: available_sample pos_dict_init_def)
qed

text \<open>
  C6. With the grammar level \<open>intermediate\<close>, the table of \<open>get_grammar_elements\<close> holds,
  under every category and key, the intermediate tier's entry when that tier has one and
  the beginner tier's entry otherwise (and nothing else); with the level \<open>beginner\<close> it is
  the beginner tier. The table depends on the builder's grammar level only. The last part
  is the rule of \<open>update\<close> the merge rests on: the updating entries win on a common key.
\<close>

theorem grammar_elements_merge:
  "(grammar_level self = ''intermediate'' \<longrightarrow>
      (\<forall>category key.
         grammar_entry (get_grammar_elements self) category key =
           (case grammar_entry (grammar_tier ''intermediate'') category key of
              Some e \<Rightarrow> Some e
            | None \<Rightarrow> grammar_entry (grammar_tier ''beginner'') category key))) \<and>
   (grammar_level self = ''beginner'' \<longrightarrow> get_grammar_elements self = grammar_tier ''beginner'') \<and>
   (grammar_level self = grammar_level other \<longrightarrow>
      get_grammar_elements self = get_grammar_elements other) \<and>
   (\<forall>d items k. map_of (dict_update d items) k =
      (case map_of (rev items) k of Some e \<Rightarrow> Some e | None \<Rightarrow> map_of d k))"
proof -
  have "get_grammar_elements self = grammar_tier ''beginner''"
    if "grammar_level self = ''beginner''"
    using that by (simp add: grammar_cases grammar_tiers)
  moreover have "get_grammar_elements self = get_grammar_elements other"
    if "grammar_level self = grammar_level other"
    using that by (simp add: get_grammar_elements_def)
  moreover have "map_of (dict_update d items) k =
      (case map_of (rev items) k of Some e \<Rightarrow> Some e | None \<Rightarrow> map_of d k)"
    for d :: "('a \<times> 'b) list" and items k
    by (simp add: map_of_dict_update map_add_def split: option.splits)
  ultimately show ?thesis using intermediate_entry [of self] by blast
qed

theorem grammar_elements_merge_witness:
  "grammar_entry (get_grammar_elements (sample_builder [] {} ''intermediate'')) ''particles'' kana_he
     = Some (element kana_he ''e'' ''towards'') \<and>
   grammar_entry (get_grammar_elements (sample_builder [] {} ''intermediate'')) ''particles'' kana_ha
     = Some (element kana_ha ''wa'' ''topic marker'') \<and>
   grammar_entry (get_grammar_elements (sample_builder [] {} ''intermediate'')) ''verb_endings'' kana_te
     = Some (element kana_te ''te'' ''te-form'') \<and>
   get_grammar_elements (sample_builder [] {} ''beginner'')
     = [(''particles'', beginner_particles), (''verb_endings'', beginner_verb_endings)] \<and>
   get_grammar_elements (sample_builder [ishi] {1} ''beginner'')
     = get_grammar_elements (sample_builder [] {} ''beginner'')"
proof -
  let ?bi = "sample_builder [] {} ''intermediate''"
  let ?bb = "sample_builder [] {} ''beginner''"
  have m: "grammar_entry (get_grammar_elements ?bi) category key =
             (case grammar_entry (grammar_tier ''intermediate'') category key of
                Some e \<Rightarrow> Some e
              | None \<Rightarrow> grammar_entry (grammar_tier ''beginner'') category key)" for category key
    using grammar_elements_merge [of ?bi ?bi, THEN conjunct1] by (simp add: builder_fields)
  have b: "get_grammar_elements ?bb = grammar_tier ''beginner''"
    using grammar_elements_merge [of ?bb ?bb, THEN conjunct2, THEN conjunct1]
    by (simp add: builder_fields)
  have p: "get_grammar_elements (sample_builder [ishi] {1} ''beginner'') = get_grammar_elements ?bb"
    using grammar_elements_merge [of "sample_builder [ishi] {1} ''beginner''" ?bb,
        THEN conjunct2, THEN conjunct2, THEN conjunct1]
    by (simp add: builder_fields)
  show ?thesis
    unfolding m b p
    by (simp add: grammar_tiers grammar_entry_def beginner_particles_def intermediate_particles_def
        intermediate_verb_endings_def)
qed

text \<open>
  C7. \<open>load_cache\<close> is to return \<open>None\<close> on an envelope that lacks the timestamp or the
  data key. On the cache file \<open>{"timestamp": 5}\<close>, a dictionary without the key \<open>data\<close>,
  \<open>datetime.fromisoformat(5)\<close> raises TypeError, which \<open>except (FileNotFoundError,
  KeyError, ValueError)\<close> does not catch: \<open>load_cache\<close> raises, whatever the clock, the
  maximum age and the library's codec are.
\<close>

theorem load_cache_envelope_without_data:
  "map_of [(''timestamp'', JInt 5)] ''data'' = None \<and>
   load_cache fromisoformat fl later
     [cache_path ''knowledge_cache_12345678'' \<mapsto> Document (JObj [(''timestamp'', JInt 5)])]
     ''knowledge_cache_12345678'' max_age_hours = Inl TypeError"
  by (simp add: load_cache_def read_cache_def subscript_def getitem_def parse_timestamp_def)

text \<open>
  The rest of the claim on a concrete cache, with the identity as rounding: saved at the
  reading 1 with a maximum of 24 hours, the payload comes back 24 hours later and not one
  microsecond after that; a missing file, a file that is not JSON, and dictionaries without
  the timestamp or (with a date as timestamp) without the data are misses.
\<close>

lemma cache_sample:
  "load_cache untally (\<lambda>x. x) 86400000001
      (save_cache tally 1 Map.empty (JObj [(''level'', JInt 3)]) ''knowledge_cache_12345678'')
      ''knowledge_cache_12345678'' 24 = Inr (Some (JObj [(''level'', JInt 3)])) \<and>
   load_cache untally (\<lambda>x. x) 86400000002
      (save_cache tally 1 Map.empty (JObj [(''level'', JInt 3)]) ''knowledge_cache_12345678'')
      ''knowledge_cache_12345678'' 24 = Inr None \<and>
   load_cache untally (\<lambda>x. x) 5 Map.empty ''knowledge_cache_12345678'' 24 = Inr None \<and>
   load_cache untally (\<lambda>x. x) 5 [cache_path ''k'' \<mapsto> NotJson] ''k'' 24 = Inr None \<and>
   load_cache untally (\<lambda>x. x) 5 [cache_path ''k'' \<mapsto> Document (JObj [(''data'', JInt 3)])] ''k'' 24
     = Inr None \<and>
   load_cache untally (\<lambda>x. x) 5
     [cache_path ''k'' \<mapsto> Document (JObj [(''timestamp'', JStr ''III'')])] ''k'' 24 = Inr None"
proof -
  have a: "\<not> age_exceeds (\<lambda>x. x) (int 86400000001 - int 1) 24"
    by (rule age_within) simp_all
  have b: "age_exceeds (\<lambda>x. x) (int 86400000002 - int 1) 24"
    by (simp add: age_exceeds_def)
  have u: "untally ''III'' = Some (Naive 3)"
    by (simp add: untally_def)
  show ?thesis
    using load_saved [of untally tally "\<lambda>x. x" 86400000001 1 24, OF _ a]
      load_stale [of "save_cache tally 1 Map.empty (JObj [(''level'', JInt 3)]) ''knowledge_cache_12345678''"
        "''knowledge_cache_12345678''"
        "[(''timestamp'', JStr (tally 1)), (''data'', JObj [(''level'', JInt 3)])]"
        "tally 1" untally 1 "\<lambda>x. x" 86400000002 24, OF _ _ _ b]
      load_no_data [of "[cache_path ''k'' \<mapsto> Document (JObj [(''timestamp'', JStr ''III'')])]"
        "''k''" "[(''timestamp'', JStr ''III'')]" "''III''" untally 3 "\<lambda>x. x" 5 24, OF _ _ u]
    by (simp add: untally_tally save_cache_def load_missing load_not_json load_no_timestamp)
qed

text \<open>
  C8. \<open>generate_sentence_with_gpt\<close> raises exactly when the builder has no truthy key.
  With a key the prompt is built, and the result is the empty list when the request fails,
  when the reply is not JSON, and when the parsed reply has no \<open>sentences\<close> entry (it is
  no dictionary, or a dictionary without that key); a reply with the entry gives the entry.
  The builder's key is truthy exactly when the constructor's argument or the environment
  variable is.
\<close>

theorem generation_failure_policy:
  "((\<exists>e. generate_sentence_with_gpt json_loads llm self n = Inl e)
      \<longleftrightarrow> \<not> str_truthy (openai_api_key self)) \<and>
   (str_truthy (openai_api_key self) \<longrightarrow>
      (\<exists>p. get_vocabulary_prompt self = Inr p \<and>
         (llm (p @ format_request n) = RequestFailed \<longrightarrow>
            generate_sentence_with_gpt json_loads llm self n = Inr (JList [])) \<and>
         (\<forall>reply. llm (p @ format_request n) = Content reply \<and> json_loads reply = None \<longrightarrow>
            generate_sentence_with_gpt json_loads llm self n = Inr (JList [])) \<and>
         (\<forall>reply result. llm (p @ format_request n) = Content reply \<and>
              json_loads reply = Some result \<and>
              (\<forall>kvs. result = JObj kvs \<longrightarrow> map_of kvs ''sentences'' = None) \<longrightarrow>
            generate_sentence_with_gpt json_loads llm self n = Inr (JList [])) \<and>
         (\<forall>reply kvs sentences. llm (p @ format_request n) = Content reply \<and>
              json_loads reply = Some (JObj kvs) \<and> map_of kvs ''sentences'' = Some sentences \<longrightarrow>
            generate_sentence_with_gpt json_loads llm self n = Inr sentences))) \<and>
   (\<forall>k lvl api_key env_key. init_SentenceBuilder k lvl api_key env_key = Inr self \<longrightarrow>
      (str_truthy (openai_api_key self) \<longleftrightarrow> str_truthy api_key \<or> str_truthy env_key))"
proof -
  have raise: "(\<exists>e. generate_sentence_with_gpt json_loads llm self n = Inl e)
      \<longleftrightarrow> \<not> str_truthy (openai_api_key self)"
    using generate_returns [of self json_loads llm n] generate_no_key [of self json_loads llm n]
    by auto
  have key: "str_truthy (openai_api_key self) \<longleftrightarrow> str_truthy api_key \<or> str_truthy env_key"
    if "init_SentenceBuilder k lvl api_key env_key = Inr self" for k lvl api_key env_key
    unfolding init_fields(4) [OF that] by (simp add: py_or_def)
  have body: "\<exists>p. get_vocabulary_prompt self = Inr p \<and>
         (llm (p @ format_request n) = RequestFailed \<longrightarrow>
            generate_sentence_with_gpt json_loads llm self n = Inr (JList [])) \<and>
         (\<forall>reply. llm (p @ format_request n) = Content reply \<and> json_loads reply = None \<longrightarrow>
            generate_sentence_with_gpt json_loads llm self n = Inr (JList [])) \<and>
         (\<forall>reply result. llm (p @ format_request n) = Content reply \<and>
              json_loads reply = Some result \<and>
              (\<forall>kvs. result = JObj kvs \<longrightarrow> map_of kvs ''sentences'' = None) \<longrightarrow>
            generate_sentence_with_gpt json_loads llm self n = Inr (JList [])) \<and>
         (\<forall>reply kvs sentences. llm (p @ format_request n) = Content reply \<and>
              json_loads reply = Some (JObj kvs) \<and> map_of kvs ''sentences'' = Some sentences \<longrightarrow>
            generate_sentence_with_gpt json_loads llm self n = Inr sentences)"
    if k: "str_truthy (openai_api_key self)"
  proof -
    obtain p where p: "get_vocabulary_prompt self = Inr p" using prompt_total by blast
    note u = generate_unfold [OF k p, of json_loads llm n]
    have f1: "generate_sentence_with_gpt json_loads llm self n = Inr (JList [])"
      if "llm (p @ format_request n) = RequestFailed"
      using that by (simp add: u)
    have f2: "generate_sentence_with_gpt json_loads llm self n = Inr (JList [])"
      if "llm (p @ format_request n) = Content reply" "json_loads reply = None" for reply
      using that by (simp add: u)
    have f3: "generate_sentence_with_gpt json_loads llm self n = Inr (JList [])"
      if "llm (p @ format_request n) = Content reply" "json_loads reply = Some result"
        "\<forall>kvs. result = JObj kvs \<longrightarrow> map_of kvs ''sentences'' = None" for reply result
      using that(1,2) no_sentences [OF that(3)] by (auto simp: u)
    have f4: "generate_sentence_with_gpt json_loads llm self n = Inr sentences"
      if "llm (p @ format_request n) = Content reply" "json_loads reply = Some (JObj kvs)"
        "map_of kvs ''sentences'' = Some sentences" for reply kvs sentences
      using that by (simp add: u subscript_def getitem_def)
    from p f1 f2 f3 f4 show ?thesis by blast
  qed
  from raise key body show ?thesis by blast
qed

theorem generation_failure_policy_witness:
  "generate_sentence_with_gpt (\<lambda>reply. None) (\<lambda>prompt. RequestFailed) keyed_builder 3
     = Inr (JList []) \<and>
   generate_sentence_with_gpt (\<lambda>reply. None) (\<lambda>prompt. Content ''not json'') keyed_builder 3
     = Inr (JList []) \<and>
   generate_sentence_with_gpt (\<lambda>reply. Some (JObj [(''error'', JStr ''overloaded'')]))
     (\<lambda>prompt. Content ''{}'') keyed_builder 3 = Inr (JList []) \<and>
   generate_sentence_with_gpt (\<lambda>reply. Some (JObj [(''sentences'', JList [JStr ''s''])]))
     (\<lambda>prompt. Content ''{}'') keyed_builder 3 = Inr (JList [JStr ''s'']) \<and>
   generate_sentence_with_gpt (\<lambda>reply. None) (\<lambda>prompt. RequestFailed)
     (sample_builder [ishi, tani, kesu] {1, 2, 3} ''beginner'') 3 = Inl ValueError"
proof -
  have a: "generate_sentence_with_gpt (\<lambda>reply. None) (\<lambda>prompt. RequestFailed) keyed_builder 3
             = Inr (JList [])"
    using generation_failure_policy [of "\<lambda>reply. None" "\<lambda>prompt. RequestFailed" keyed_builder 3,
        THEN conjunct2, THEN conjunct1]
    by (auto simp: builder_fields str_truthy_def)
  have b: "generate_sentence_with_gpt (\<lambda>reply. None) (\<lambda>prompt. Content ''not json'') keyed_builder 3
             = Inr (JList [])"
    using generation_failure_policy [of "\<lambda>reply. None" "\<lambda>prompt. Content ''not json''"
        keyed_builder 3, THEN conjunct2, THEN conjunct1]
    by (auto simp: builder_fields str_truthy_def)
  have c: "generate_sentence_with_gpt (\<lambda>reply. Some (JObj [(''error'', JStr ''overloaded'')]))
             (\<lambda>prompt. Content ''{}'') keyed_builder 3 = Inr (JList [])"
    using generation_failure_policy [of "\<lambda>reply. Some (JObj [(''error'', JStr ''overloaded'')])"
        "\<lambda>prompt. Content ''{}''" keyed_builder 3, THEN conjunct2, THEN conjunct1]
    by (auto simp: builder_fields str_truthy_def)
  have d: "generate_sentence_with_gpt (\<lambda>reply. Some (JObj [(''sentences'', JList [JStr ''s''])]))
             (\<lambda>prompt. Content ''{}'') keyed_builder 3 = Inr (JList [JStr ''s''])"
    using generation_failure_policy [of "\<lambda>reply. Some (JObj [(''sentences'', JList [JStr ''s''])])"
        "\<lambda>prompt. Content ''{}''" keyed_builder 3, THEN conjunct2, THEN conjunct1]
    by (auto simp: builder_fields str_truthy_def)
  have e: "generate_sentence_with_gpt (\<lambda>reply. None) (\<lambda>prompt. RequestFailed)
             (sample_builder [ishi, tani, kesu] {1, 2, 3} ''beginner'') 3 = Inl ValueError"
    using generation_failure_policy [of "\<lambda>reply. None" "\<lambda>prompt. RequestFailed"
        "sample_builder [ishi, tani, kesu] {1, 2, 3} ''beginner''" 3, THEN conjunct1]
    by (simp add: generate_sentence_with_gpt_def builder_fields str_truthy_def)
  from a b c d e show ?thesis by simp
qed

text \<open>
  C9. For every builder the bucket \<open>adverb\<close> of \<open>get_available_words_by_pos\<close> is the empty
  list: \<open>_normalize_pos\<close> maps the tag \<open>adverb\<close> to \<open>verb\<close>, since \<open>verb\<close> occurs in it, and
  maps no tag to \<open>adverb\<close>.
\<close>

theorem adverb_bucket_empty:
  "map_of (get_available_words_by_pos self) ''adverb'' = Some [] \<and>
   normalize_pos ''adverb'' = ''verb'' \<and> normalize_pos pos \<noteq> ''adverb''"
proof -
  have "normalize_pos ''adverb'' = ''verb''"
    using verb_in_adverb by (simp add: normalize_pos_cases)
  then show ?thesis by (simp add: available_adverb normalize_pos_not_adverb)
qed

text \<open>The started adverb \<open>mata\<close> is listed under \<open>verb\<close>.\<close>

theorem adverb_bucket_empty_witness:
  "get_available_words_by_pos (sample_builder [mata] {5} ''beginner'') =
     [(''verb'', [mata]), (''noun'', []), (''adjective'', []), (''adverb'', []), (''expression'', [])]"
  using adverb_bucket_empty [of "sample_builder [mata] {5} ''beginner''" "''adverb''"]
  by (simp add: get_available_words_by_pos_def builder_fields pos_dict_init_def bucket_word_def
      Let_def more_sample_fields normalize_samples)

text \<open>
  C10, as amended. For a builder made by the constructor, a vocabulary item without a
  truthy \<open>started_at\<close> in its \<open>user_specific_data\<close>, such that no other vocabulary item with
  its id has one, is left out: its id is not in \<open>started_vocab\<close> and the item is in no
  bucket of \<open>get_available_words_by_pos\<close>, whatever its \<open>srs_stage\<close>. The item made from a
  subject record without \<open>user_specific_data\<close> is such an item, whatever stage it is given.
\<close>

theorem unstarted_item_excluded:
  assumes "init_SentenceBuilder k lvl api_key env_key = Inr self"
    and "w \<in> set (vocabulary k)" and "\<not> has_started_at w"
    and "\<forall>v \<in> set (vocabulary k). item_id v = item_id w \<and> v \<noteq> w \<longrightarrow> \<not> has_started_at v"
  shows "item_id w \<notin> started_vocab self \<and>
         (\<forall>pos ws. map_of (get_available_words_by_pos self) pos = Some ws \<longrightarrow> w \<notin> set ws) \<and>
         (\<forall>raw stage. user_specific_data_raw raw = None \<longrightarrow>
            \<not> has_started_at (convert_to_wanikani_item raw stage))"
proof -
  have n: "item_id w \<notin> started_vocab self"
    unfolding init_fields(3) [OF assms(1)] using assms(3,4) by auto
  have "w \<notin> set ws" if "map_of (get_available_words_by_pos self) pos = Some ws" for pos ws
    using available_within [OF that] n by auto
  with n convert_unstarted show ?thesis by blast
qed

text \<open>
  The noun \<open>kani\<close> has an SRS stage and an empty \<open>user_specific_data\<close>: it is in the
  vocabulary and in no bucket.
\<close>

theorem unstarted_item_excluded_witness:
  "srs_stage kani = Some 5 \<and> \<not> has_started_at kani \<and>
   item_id kani \<notin> started_vocab (sample_builder [ishi, tani, kesu, kani] {1, 2, 3} ''beginner'') \<and>
   map_of (get_available_words_by_pos (sample_builder [ishi, tani, kesu, kani] {1, 2, 3} ''beginner''))
      ''noun'' = Some [ishi, tani]"
  using unstarted_item_excluded [OF init_sample, of kani]
  by (simp add: has_started_at_def sample_fields sample_started available_sample builder_fields)

text \<open>
  The claim as stated fails when two items share an id: \<open>ishi_unstarted\<close> has an empty
  \<open>user_specific_data\<close> and the id of the started \<open>ishi\<close>, so its id is in \<open>started_vocab\<close>
  and the item is listed among the nouns.
\<close>

theorem unstarted_item_counterexample:
  "init_SentenceBuilder (sample_knowledge [ishi, ishi_unstarted]) ''beginner'' None None
     = Inr (sample_builder [ishi, ishi_unstarted] {1} ''beginner'') \<and>
   \<not> has_started_at ishi_unstarted \<and> srs_stage ishi_unstarted = Some 5 \<and>
   item_id ishi_unstarted \<in> started_vocab (sample_builder [ishi, ishi_unstarted] {1} ''beginner'') \<and>
   map_of (get_available_words_by_pos (sample_builder [ishi, ishi_unstarted] {1} ''beginner'')) ''noun''
     = Some [ishi, ishi_unstarted]"
  by (simp add: init_SentenceBuilder_def sample_builder_def sample_knowledge_def sample_fields
      more_sample_fields sample_started py_or_def str_truthy_def has_started_at_def
      get_available_words_by_pos_def pos_dict_init_def bucket_word_def Let_def normalize_samples)

end
